theory Spec2Isabelle
  imports Main
begin

section \<open>Data model\<close>

text \<open>
  User identifiers and socket identifiers are strings in the source
  (\<^verbatim>\<open>socket.data.userId\<close>, \<^verbatim>\<open>socket.id\<close>, \<^verbatim>\<open>Map<string, string>\<close>).
  Message identifiers are ObjectIds generated by the store; they are modelled as
  natural numbers. Dates are natural numbers (a clock value \<open>now\<close> is passed to
  every handler that calls \<^verbatim>\<open>new Date()\<close> or relies on schema timestamps).
\<close>

type_synonym uid = string
type_synonym sid = string
type_synonym mid = nat

text \<open>Truthiness of a JavaScript string: every string but the empty one.\<close>

definition truthy :: "string \<Rightarrow> bool" where
  "truthy s = (s \<noteq> [])"

subsection \<open>models/Message.ts\<close>

record reaction =
  r_user :: uid
  r_emoji :: string
  r_createdAt :: nat

text \<open>
  \<^verbatim>\<open>IMessage\<close>. The field \<^verbatim>\<open>type\<close> is named \<open>mtype\<close>, \<^verbatim>\<open>_id\<close> is \<open>m_id\<close>.
\<close>

record message =
  m_id :: mid
  sender :: uid
  receiver :: uid
  content :: "string option"
  image :: "string option"
  audio :: "string option"
  mtype :: string
  isRead :: bool
  replyTo :: "mid option"
  isEdited :: bool
  editedAt :: "nat option"
  reactions :: "reaction list"
  createdAt :: nat
  updatedAt :: nat

text \<open>
  A user document. The schema file of the \<^verbatim>\<open>User\<close> model is not among the sources;
  the record holds the fields that the code reads or writes there: \<^verbatim>\<open>name\<close> and
  \<^verbatim>\<open>avatar\<close>, which the populate calls select, and the two presence fields.
\<close>

record user =
  name :: string
  avatar :: "string option"
  isOnline :: bool
  lastSeen :: "nat option"

text \<open>
  The Durable Store: the \<^verbatim>\<open>Contact\<close> collection as its (user, contact) pairs, the
  \<^verbatim>\<open>Message\<close> collection in insertion order, the \<^verbatim>\<open>User\<close> collection by id.
\<close>

record store =
  Contact :: "(uid \<times> uid) list"
  Message :: "message list"
  User :: "uid \<rightharpoonup> user"

subsection \<open>Schema setters and validators\<close>

text \<open>
  \<^verbatim>\<open>String.prototype.trim\<close>, which the setter of
  \<^verbatim>\<open>content: { type: String, trim: true }\<close> and the message controller call: it
  removes the white space and line terminators at both ends. A string is the sequence
  of its UTF-8 bytes, and every white-space code point is listed by its encoding:
  U+0009 to U+000D, U+0020, U+00A0, U+1680, U+2000 to U+200A, U+2028, U+2029, U+202F,
  U+205F, U+3000 and U+FEFF.
\<close>

definition white_space :: "string list" where
  "white_space =
     [[CHR 0x09], [CHR 0x0A], [CHR 0x0B], [CHR 0x0C], [CHR 0x0D], [CHR 0x20],
      [CHR 0xC2, CHR 0xA0], [CHR 0xE1, CHR 0x9A, CHR 0x80]]
     @ map (\<lambda>b. [CHR 0xE2, CHR 0x80, b])
         [CHR 0x80, CHR 0x81, CHR 0x82, CHR 0x83, CHR 0x84, CHR 0x85, CHR 0x86, CHR 0x87,
          CHR 0x88, CHR 0x89, CHR 0x8A, CHR 0xA8, CHR 0xA9, CHR 0xAF]
     @ [[CHR 0xE2, CHR 0x81, CHR 0x9F], [CHR 0xE3, CHR 0x80, CHR 0x80],
        [CHR 0xEF, CHR 0xBB, CHR 0xBF]]"

text \<open>The number of bytes of the white-space code point a string starts with, or 0.\<close>

definition space_at_start :: "string list \<Rightarrow> string \<Rightarrow> nat" where
  "space_at_start ws s =
     (case find (\<lambda>w. take (length w) s = w) ws of None \<Rightarrow> 0 | Some w \<Rightarrow> length w)"

fun trim_start :: "string list \<Rightarrow> string \<Rightarrow> string" where
  "trim_start ws [] = []"
| "trim_start ws (c # cs) =
     (case space_at_start ws (c # cs) of 0 \<Rightarrow> c # cs | Suc k \<Rightarrow> trim_start ws (drop k cs))"

definition trim :: "string \<Rightarrow> string" where
  "trim s = rev (trim_start (map rev white_space) (rev (trim_start white_space s)))"

text \<open>
  \<^verbatim>\<open>type: { enum: ['text', 'image', 'audio'], required: true }\<close> and, for every
  reaction, \<^verbatim>\<open>emoji: { type: String, required: true }\<close>: a required string path
  rejects the empty string. The validator yields the text of the validation error, or
  nothing when the document is valid. The text names every failing path, a reaction
  by its index; the paths are listed in schema order here, and no code under
  \<^verbatim>\<open>src/\<close> looks into the text.
\<close>

fun show_nat :: "nat \<Rightarrow> string" where
  "show_nat n =
     (if n < 10 then [''0123456789'' ! n]
      else show_nat (n div 10) @ [''0123456789'' ! (n mod 10)])"

declare show_nat.simps [simp del]

definition type_errors :: "message \<Rightarrow> string list" where
  "type_errors m =
     (if mtype m = [] then [''type: Path `type` is required.'']
      else if mtype m \<notin> set [''text'', ''image'', ''audio'']
        then [''type: `'' @ mtype m @ ''` is not a valid enum value for path `type`.'']
      else [])"

definition emoji_errors :: "message \<Rightarrow> string list" where
  "emoji_errors m =
     map (\<lambda>(n, r). ''reactions.'' @ show_nat n @ ''.emoji: Path `emoji` is required.'')
       (filter (\<lambda>(n, r). r_emoji r = []) (enumerate 0 (reactions m)))"

definition validate :: "message \<Rightarrow> string option" where
  "validate m =
     (case type_errors m @ emoji_errors m of
        [] \<Rightarrow> None
      | e # es \<Rightarrow> Some (''Message validation failed: '' @ foldl (\<lambda>a b. a @ '', '' @ b) e es))"

subsection \<open>Store calls\<close>

text \<open>\<^verbatim>\<open>Contact.findOne({ user, contact })\<close>\<close>

definition Contact_findOne :: "store \<Rightarrow> uid \<Rightarrow> uid \<Rightarrow> (uid \<times> uid) option" where
  "Contact_findOne st u c = find (\<lambda>(u', c'). u' = u \<and> c' = c) (Contact st)"

text \<open>\<^verbatim>\<open>Message.findById(id)\<close>\<close>

definition Message_findById :: "store \<Rightarrow> mid \<Rightarrow> message option" where
  "Message_findById st i = find (\<lambda>m. m_id m = i) (Message st)"

text \<open>
  A new ObjectId differs from every identifier in the collection. The model takes the
  least number above all of them; a client cannot know the identifier beforehand.
\<close>

definition new_id :: "message list \<Rightarrow> mid" where
  "new_id ms = Suc (foldr max (map m_id ms) 0)"

text \<open>
  \<^verbatim>\<open>Message.create(messageData)\<close>: schema defaults and timestamps are filled in, the
  content is trimmed, the document is validated and, if valid, inserted.
\<close>

record messageData =
  md_sender :: uid
  md_receiver :: uid
  md_content :: "string option"
  md_image :: "string option"
  md_audio :: "string option"
  md_type :: string
  md_isRead :: bool
  md_replyTo :: "mid option"

definition Message_create :: "nat \<Rightarrow> messageData \<Rightarrow> store \<Rightarrow> string + (message \<times> store)" where
  "Message_create now d st =
     (let doc = \<lparr> m_id = new_id (Message st),
                  sender = md_sender d,
                  receiver = md_receiver d,
                  content = map_option trim (md_content d),
                  image = md_image d,
                  audio = md_audio d,
                  mtype = md_type d,
                  isRead = md_isRead d,
                  replyTo = md_replyTo d,
                  isEdited = False,
                  editedAt = None,
                  reactions = [],
                  createdAt = now,
                  updatedAt = now \<rparr>
      in case validate doc of
           Some e \<Rightarrow> Inl e
         | None \<Rightarrow> Inr (doc, st\<lparr>Message := Message st @ [doc]\<rparr>))"

text \<open>
  \<^verbatim>\<open>message.save()\<close> on a loaded document: the document is validated,
  \<^verbatim>\<open>updatedAt\<close> is refreshed and the stored document of that identifier is replaced.
  (Setters such as the trim of \<^verbatim>\<open>content\<close> run when a field is assigned, not here.)
\<close>

definition save :: "nat \<Rightarrow> message \<Rightarrow> store \<Rightarrow> string + store" where
  "save now doc st =
     (let doc' = doc\<lparr>updatedAt := now\<rparr>
      in case validate doc' of
           Some e \<Rightarrow> Inl e
         | None \<Rightarrow> Inr (st\<lparr>Message := map (\<lambda>m. if m_id m = m_id doc' then doc' else m) (Message st)\<rparr>))"

text \<open>
  \<^verbatim>\<open>Message.updateMany({ sender, receiver, isRead: false }, { isRead: true })\<close>
\<close>

definition Message_updateMany :: "nat \<Rightarrow> uid \<Rightarrow> uid \<Rightarrow> store \<Rightarrow> store" where
  "Message_updateMany now s r st =
     st\<lparr>Message := map (\<lambda>m. if sender m = s \<and> receiver m = r \<and> \<not> isRead m
                              then m\<lparr>isRead := True, updatedAt := now\<rparr> else m) (Message st)\<rparr>"

text \<open>\<^verbatim>\<open>User.findByIdAndUpdate(id, update)\<close>: no document, no change.\<close>

definition User_findByIdAndUpdate :: "uid \<Rightarrow> (user \<Rightarrow> user) \<Rightarrow> store \<Rightarrow> store" where
  "User_findByIdAndUpdate u f st =
     (case User st u of None \<Rightarrow> st | Some doc \<Rightarrow> st\<lparr>User := (User st)(u \<mapsto> f doc)\<rparr>)"

text \<open>\<^verbatim>\<open>message.deleteOne()\<close> on a loaded document\<close>

definition deleteOne :: "message \<Rightarrow> store \<Rightarrow> store" where
  "deleteOne doc st = st\<lparr>Message := filter (\<lambda>m. m_id m \<noteq> m_id doc) (Message st)\<rparr>"

subsection \<open>Resolved messages: the populate chain\<close>

text \<open>
  Every handler that hands a message to a client reads it with
  \<^verbatim>\<open>.populate('sender', ...).populate('receiver', ...).populate({ path: 'replyTo', select:
  'content type sender image', populate: { path: 'sender', select: 'name' } })
  .populate('reactions.user', 'name')\<close>.
  Populate replaces a reference by the selected fields of the document it names, and by
  null when no such document exists. The socket handlers select
  \<^verbatim>\<open>'name avatar isOnline'\<close> for sender and receiver, the message controller
  \<^verbatim>\<open>'name avatar'\<close>.
\<close>

record user_ref =
  ur_id :: uid
  ur_name :: string

record user_card =
  uc_id :: uid
  uc_name :: string
  uc_avatar :: "string option"
  uc_isOnline :: "bool option"

record reply_ref =
  rp_id :: mid
  rp_content :: "string option"
  rp_type :: string
  rp_sender :: "user_ref option"
  rp_image :: "string option"

record resolved_reaction =
  rr_user :: "user_ref option"
  rr_emoji :: string
  rr_createdAt :: nat

record resolved_message =
  p_id :: mid
  p_sender :: "user_card option"
  p_receiver :: "user_card option"
  p_content :: "string option"
  p_image :: "string option"
  p_audio :: "string option"
  p_type :: string
  p_isRead :: bool
  p_replyTo :: "reply_ref option"
  p_isEdited :: bool
  p_editedAt :: "nat option"
  p_reactions :: "resolved_reaction list"
  p_createdAt :: nat
  p_updatedAt :: nat

definition select_name :: "store \<Rightarrow> uid \<Rightarrow> user_ref option" where
  "select_name st u = map_option (\<lambda>doc. \<lparr> ur_id = u, ur_name = name doc \<rparr>) (User st u)"

definition select_card :: "bool \<Rightarrow> store \<Rightarrow> uid \<Rightarrow> user_card option" where
  "select_card with_isOnline st u =
     map_option (\<lambda>doc. \<lparr> uc_id = u, uc_name = name doc, uc_avatar = avatar doc,
                          uc_isOnline = (if with_isOnline then Some (isOnline doc) else None) \<rparr>)
       (User st u)"

definition select_reply :: "store \<Rightarrow> mid \<Rightarrow> reply_ref option" where
  "select_reply st r =
     map_option (\<lambda>doc. \<lparr> rp_id = m_id doc, rp_content = content doc, rp_type = mtype doc,
                          rp_sender = select_name st (sender doc), rp_image = image doc \<rparr>)
       (Message_findById st r)"

definition populate :: "bool \<Rightarrow> store \<Rightarrow> message \<Rightarrow> resolved_message" where
  "populate with_isOnline st m =
     \<lparr> p_id = m_id m,
       p_sender = select_card with_isOnline st (sender m),
       p_receiver = select_card with_isOnline st (receiver m),
       p_content = content m,
       p_image = image m,
       p_audio = audio m,
       p_type = mtype m,
       p_isRead = isRead m,
       p_replyTo = (case replyTo m of None \<Rightarrow> None | Some r \<Rightarrow> select_reply st r),
       p_isEdited = isEdited m,
       p_editedAt = editedAt m,
       p_reactions = map (\<lambda>r. \<lparr> rr_user = select_name st (r_user r), rr_emoji = r_emoji r,
                                   rr_createdAt = r_createdAt r \<rparr>) (reactions m),
       p_createdAt = createdAt m,
       p_updatedAt = updatedAt m \<rparr>"

text \<open>\<^verbatim>\<open>Message.findById(id).populate(...)\<close>: null when the message is not there.\<close>

definition findById_populated :: "bool \<Rightarrow> store \<Rightarrow> mid \<Rightarrow> resolved_message option" where
  "findById_populated with_isOnline st i =
     map_option (populate with_isOnline st) (Message_findById st i)"

subsection \<open>Rejected store calls\<close>

text \<open>
  Any store call may reject. A handler numbers its store calls 0, 1, 2 in program
  order (each \<^verbatim>\<open>await\<close> on a model call, the populate chain counting as one);
  \<open>flt k = Some e\<close> says that call \<open>k\<close>, if reached, throws \<^verbatim>\<open>Error(e)\<close>.
  A rejection stands for every error a model call can throw: a lost connection as
  well as the cast error that mongoose raises for a malformed identifier. Identifiers
  in the model are well-formed ones.
\<close>

type_synonym faults = "nat \<Rightarrow> string option"

definition no_faults :: faults where
  "no_faults = (\<lambda>_. None)"

section \<open>Session registry: \<^verbatim>\<open>io.userSockets\<close>\<close>

text \<open>
  A JavaScript \<^verbatim>\<open>Map\<close> keeps its entries in insertion order; \<^verbatim>\<open>set\<close> overwrites the
  value of an existing key in place and appends a new key; \<^verbatim>\<open>delete\<close> removes
  the key and answers whether it was present.
\<close>

type_synonym ('k, 'v) js_map = "('k \<times> 'v) list"

fun Map_set :: "('k, 'v) js_map \<Rightarrow> 'k \<Rightarrow> 'v \<Rightarrow> ('k, 'v) js_map" where
  "Map_set [] k v = [(k, v)]"
| "Map_set ((k', v') # es) k v = (if k' = k then (k, v) # es else (k', v') # Map_set es k v)"

fun Map_get :: "('k, 'v) js_map \<Rightarrow> 'k \<Rightarrow> 'v option" where
  "Map_get [] k = None"
| "Map_get ((k', v') # es) k = (if k' = k then Some v' else Map_get es k)"

definition Map_has :: "('k, 'v) js_map \<Rightarrow> 'k \<Rightarrow> bool" where
  "Map_has es k = (k \<in> set (map fst es))"

definition Map_delete :: "('k, 'v) js_map \<Rightarrow> 'k \<Rightarrow> bool \<times> ('k, 'v) js_map" where
  "Map_delete es k = (Map_has es k, filter (\<lambda>(k', v'). k' \<noteq> k) es)"

record io =
  userSockets :: "(uid, sid) js_map"

record socket =
  sock_id :: sid
  data_userId :: uid

section \<open>Events\<close>

datatype event =
    MessageError string
  | MessageSent "resolved_message option"
  | MessageReceive "resolved_message option"
  | MessageEdited "resolved_message option"
  | MessageReacted "resolved_message option"
  | MessageRead uid
  | UserStatus uid bool
  | TypingStart uid
  | TypingStop uid

text \<open>
  \<^verbatim>\<open>socket.emit\<close> and \<^verbatim>\<open>io.to(id).emit\<close> address one socket; \<^verbatim>\<open>socket.broadcast.emit\<close>
  addresses every connected socket except the given one.
\<close>

datatype target = To sid | BroadcastExcept sid

type_synonym emit = "target \<times> event"

text \<open>
  The idiom \<^verbatim>\<open>const s = io.userSockets.get(u); if (s) { io.to(s).emit(ev, payload) }\<close>
\<close>

definition push :: "io \<Rightarrow> uid \<Rightarrow> event \<Rightarrow> emit list" where
  "push i u ev =
     (case Map_get (userSockets i) u of
        None \<Rightarrow> []
      | Some s \<Rightarrow> if truthy s then [(To s, ev)] else [])"

section \<open>Message Router: socket/handlers/message.handler.ts\<close>

text \<open>
  Every handler is \<^verbatim>\<open>try { body } catch (error) { ... }\<close>. The body is modelled as
  a function yielding the store it leaves behind and either the error thrown or the
  events emitted; the handler proper adds what the \<^verbatim>\<open>catch\<close> block does. In every
  body all store calls come before the first emit, hence a body that throws has
  emitted nothing.
\<close>

subsection \<open>\<^verbatim>\<open>message:send\<close>\<close>

record send_data =
  d_receiverId :: uid
  d_content :: "string option"
  d_type :: "string option"
  d_image :: "string option"
  d_audio :: "string option"
  d_replyTo :: "mid option"

definition send_body ::
  "faults \<Rightarrow> nat \<Rightarrow> socket \<Rightarrow> io \<Rightarrow> send_data \<Rightarrow> store \<Rightarrow> store \<times> (string + emit list)" where
  "send_body flt now sock i d st =
     (let receiverId = d_receiverId d;
          type = (case d_type d of None \<Rightarrow> ''text'' | Some t \<Rightarrow> t);
          senderId = data_userId sock
      in case flt 0 of Some e \<Rightarrow> (st, Inl e) | None \<Rightarrow>
         (case Contact_findOne st senderId receiverId of
            None \<Rightarrow>
              (st, Inr [(To (sock_id sock), MessageError ''Can only send messages to contacts'')])
          | Some isContact \<Rightarrow>
              (let messageData = \<lparr> md_sender = senderId, md_receiver = receiverId,
                                   md_content = d_content d, md_image = d_image d,
                                   md_audio = d_audio d, md_type = type, md_isRead = False,
                                   md_replyTo = d_replyTo d \<rparr>
               in case flt 1 of Some e \<Rightarrow> (st, Inl e) | None \<Rightarrow>
                  (case Message_create now messageData st of
                     Inl e \<Rightarrow> (st, Inl e)
                   | Inr (msg, st1) \<Rightarrow>
                       (case flt 2 of Some e \<Rightarrow> (st1, Inl e) | None \<Rightarrow>
                          (let populatedMessage = findById_populated True st1 (m_id msg)
                           in (st1, Inr ((To (sock_id sock), MessageSent populatedMessage)
                                         # push i receiverId (MessageReceive populatedMessage)))))))))"

definition message_send ::
  "faults \<Rightarrow> nat \<Rightarrow> socket \<Rightarrow> io \<Rightarrow> send_data \<Rightarrow> store \<Rightarrow> store \<times> emit list" where
  "message_send flt now sock i d st =
     (case send_body flt now sock i d st of
        (st', Inr es) \<Rightarrow> (st', es)
      | (st', Inl e) \<Rightarrow> (st', [(To (sock_id sock), MessageError e)]))"

subsection \<open>\<^verbatim>\<open>message:edit\<close>\<close>

definition edit_body ::
  "faults \<Rightarrow> nat \<Rightarrow> socket \<Rightarrow> io \<Rightarrow> mid \<Rightarrow> string \<Rightarrow> store \<Rightarrow> store \<times> (string + emit list)" where
  "edit_body flt now sock i messageId new_content st =
     (let senderId = data_userId sock
      in case flt 0 of Some e \<Rightarrow> (st, Inl e) | None \<Rightarrow>
         (case Message_findById st messageId of
            None \<Rightarrow> (st, Inr [(To (sock_id sock), MessageError ''Message not found'')])
          | Some msg \<Rightarrow>
              if sender msg \<noteq> senderId
                then (st, Inr [(To (sock_id sock), MessageError ''Not authorized'')])
              else if mtype msg \<noteq> ''text''
                then (st, Inr [(To (sock_id sock), MessageError ''Can only edit text messages'')])
              else
                (let msg' = msg\<lparr>content := Some (trim new_content), isEdited := True,
                                editedAt := Some now\<rparr>
                 in case flt 1 of Some e \<Rightarrow> (st, Inl e) | None \<Rightarrow>
                    (case save now msg' st of
                       Inl e \<Rightarrow> (st, Inl e)
                     | Inr st1 \<Rightarrow>
                         (case flt 2 of Some e \<Rightarrow> (st1, Inl e) | None \<Rightarrow>
                            (let populatedMessage = findById_populated True st1 (m_id msg')
                             in (st1, Inr ((To (sock_id sock), MessageEdited populatedMessage)
                                           # push i (receiver msg')
                                               (MessageEdited populatedMessage)))))))))"

definition message_edit ::
  "faults \<Rightarrow> nat \<Rightarrow> socket \<Rightarrow> io \<Rightarrow> mid \<Rightarrow> string \<Rightarrow> store \<Rightarrow> store \<times> emit list" where
  "message_edit flt now sock i messageId new_content st =
     (case edit_body flt now sock i messageId new_content st of
        (st', Inr es) \<Rightarrow> (st', es)
      | (st', Inl e) \<Rightarrow> (st', [(To (sock_id sock), MessageError e)]))"

subsection \<open>\<^verbatim>\<open>message:reaction\<close>\<close>

text \<open>The find-then-filter-or-push update of the loaded document's reaction list.\<close>

definition toggle :: "nat \<Rightarrow> uid \<Rightarrow> string \<Rightarrow> reaction list \<Rightarrow> reaction list" where
  "toggle now userId emoji rs =
     (case find (\<lambda>r. r_user r = userId \<and> r_emoji r = emoji) rs of
        Some existingReaction \<Rightarrow> filter (\<lambda>r. \<not> (r_user r = userId \<and> r_emoji r = emoji)) rs
      | None \<Rightarrow> rs @ [\<lparr> r_user = userId, r_emoji = emoji, r_createdAt = now \<rparr>])"

definition reaction_body ::
  "faults \<Rightarrow> nat \<Rightarrow> socket \<Rightarrow> io \<Rightarrow> mid \<Rightarrow> string \<Rightarrow> store \<Rightarrow> store \<times> (string + emit list)" where
  "reaction_body flt now sock i messageId emoji st =
     (let userId = data_userId sock
      in case flt 0 of Some e \<Rightarrow> (st, Inl e) | None \<Rightarrow>
         (case Message_findById st messageId of
            None \<Rightarrow> (st, Inr [(To (sock_id sock), MessageError ''Message not found'')])
          | Some msg \<Rightarrow>
              (let msg' = msg\<lparr>reactions := toggle now userId emoji (reactions msg)\<rparr>
               in case flt 1 of Some e \<Rightarrow> (st, Inl e) | None \<Rightarrow>
                  (case save now msg' st of
                     Inl e \<Rightarrow> (st, Inl e)
                   | Inr st1 \<Rightarrow>
                       (case flt 2 of Some e \<Rightarrow> (st1, Inl e) | None \<Rightarrow>
                          (let populatedMessage = findById_populated True st1 (m_id msg');
                               otherUserId = (if sender msg' = userId then receiver msg'
                                              else sender msg')
                           in (st1, Inr ((To (sock_id sock), MessageReacted populatedMessage)
                                         # push i otherUserId
                                             (MessageReacted populatedMessage)))))))))"

definition message_reaction ::
  "faults \<Rightarrow> nat \<Rightarrow> socket \<Rightarrow> io \<Rightarrow> mid \<Rightarrow> string \<Rightarrow> store \<Rightarrow> store \<times> emit list" where
  "message_reaction flt now sock i messageId emoji st =
     (case reaction_body flt now sock i messageId emoji st of
        (st', Inr es) \<Rightarrow> (st', es)
      | (st', Inl e) \<Rightarrow> (st', [(To (sock_id sock), MessageError e)]))"

subsection \<open>\<^verbatim>\<open>message:read\<close>\<close>

definition read_body ::
  "faults \<Rightarrow> nat \<Rightarrow> socket \<Rightarrow> io \<Rightarrow> uid \<Rightarrow> store \<Rightarrow> store \<times> (string + emit list)" where
  "read_body flt now sock i senderId st =
     (let receiverId = data_userId sock
      in case flt 0 of Some e \<Rightarrow> (st, Inl e) | None \<Rightarrow>
         (let st1 = Message_updateMany now senderId receiverId st
          in (st1, Inr (push i senderId (MessageRead receiverId)))))"

text \<open>The \<^verbatim>\<open>catch\<close> block of this handler only writes to the console.\<close>

definition message_read ::
  "faults \<Rightarrow> nat \<Rightarrow> socket \<Rightarrow> io \<Rightarrow> uid \<Rightarrow> store \<Rightarrow> store \<times> emit list" where
  "message_read flt now sock i senderId st =
     (case read_body flt now sock i senderId st of
        (st', Inr es) \<Rightarrow> (st', es)
      | (st', Inl e) \<Rightarrow> (st', []))"

section \<open>The message controller (routes under \<^verbatim>\<open>/api/messages\<close>)\<close>

text \<open>
  The routes run behind \<^verbatim>\<open>authMiddleware\<close>, which has put the caller's user document
  into \<^verbatim>\<open>req.user\<close>; \<open>currentUserId\<close> is its \<^verbatim>\<open>_id\<close>. A response is
  \<^verbatim>\<open>sendSuccess(res, status, message, data)\<close> or \<^verbatim>\<open>sendError(res, status, message)\<close>.
\<close>

datatype data =
    Messages "resolved_message list"
  | OneMessage "resolved_message option"
  | Count nat
  | Null

datatype response =
    Success nat string data
  | Failure nat string

text \<open>\<^verbatim>\<open>error.message || 'Server error'\<close>\<close>

definition or_server_error :: "string \<Rightarrow> string" where
  "or_server_error e = (if truthy e then e else ''Server error'')"

definition between :: "uid \<Rightarrow> uid \<Rightarrow> message \<Rightarrow> bool" where
  "between a b m = ((sender m = a \<and> receiver m = b) \<or> (sender m = b \<and> receiver m = a))"

definition getChatHistory :: "faults \<Rightarrow> nat \<Rightarrow> uid \<Rightarrow> uid \<Rightarrow> store \<Rightarrow> store \<times> response" where
  "getChatHistory flt now currentUserId userId st =
     (case flt 0 of Some e \<Rightarrow> (st, Failure 500 (or_server_error e)) | None \<Rightarrow>
        (case Contact_findOne st currentUserId userId of
           None \<Rightarrow> (st, Failure 403 ''You can only view messages from your contacts'')
         | Some isContact \<Rightarrow>
             (case flt 1 of Some e \<Rightarrow> (st, Failure 500 (or_server_error e)) | None \<Rightarrow>
                (let messages = map (populate False st)
                                  (sort_key createdAt
                                     (filter (between currentUserId userId) (Message st)))
                 in case flt 2 of Some e \<Rightarrow> (st, Failure 500 (or_server_error e)) | None \<Rightarrow>
                      (Message_updateMany now userId currentUserId st,
                       Success 200 ''Chat history fetched successfully''
                         (Messages messages))))))"

text \<open>\<^verbatim>\<open>getUnreadCount\<close>\<close>

definition getUnreadCount :: "faults \<Rightarrow> uid \<Rightarrow> store \<Rightarrow> store \<times> response" where
  "getUnreadCount flt currentUserId st =
     (case flt 0 of Some e \<Rightarrow> (st, Failure 500 (or_server_error e)) | None \<Rightarrow>
        (let unreadCount = length (filter (\<lambda>m. receiver m = currentUserId \<and> \<not> isRead m)
                                     (Message st))
         in (st, Success 200 ''Unread count fetched'' (Count unreadCount))))"

text \<open>\<^verbatim>\<open>deleteMessage\<close>\<close>

definition deleteMessage :: "faults \<Rightarrow> uid \<Rightarrow> mid \<Rightarrow> store \<Rightarrow> store \<times> response" where
  "deleteMessage flt currentUserId messageId st =
     (case flt 0 of Some e \<Rightarrow> (st, Failure 500 (or_server_error e)) | None \<Rightarrow>
        (case Message_findById st messageId of
           None \<Rightarrow> (st, Failure 404 ''Message not found'')
         | Some msg \<Rightarrow>
             if sender msg \<noteq> currentUserId
               then (st, Failure 403 ''Not authorized to delete this message'')
             else
               (case flt 1 of Some e \<Rightarrow> (st, Failure 500 (or_server_error e)) | None \<Rightarrow>
                  (deleteOne msg st, Success 200 ''Message deleted successfully'' Null))))"

text \<open>
  \<^verbatim>\<open>editMessage\<close>; \<open>body_content\<close> is \<^verbatim>\<open>req.body.content\<close>, absent or a string. The
  controller trims the content and the schema setter trims it again on assignment.
\<close>

definition editMessage ::
  "faults \<Rightarrow> nat \<Rightarrow> uid \<Rightarrow> mid \<Rightarrow> string option \<Rightarrow> store \<Rightarrow> store \<times> response" where
  "editMessage flt now currentUserId messageId body_content st =
     (case body_content of
        None \<Rightarrow> (st, Failure 400 ''Message content cannot be empty'')
      | Some new_content \<Rightarrow>
          if truthy new_content \<and> truthy (trim new_content) then
            (case flt 0 of Some e \<Rightarrow> (st, Failure 500 (or_server_error e)) | None \<Rightarrow>
               (case Message_findById st messageId of
                  None \<Rightarrow> (st, Failure 404 ''Message not found'')
                | Some msg \<Rightarrow>
                    if sender msg \<noteq> currentUserId
                      then (st, Failure 403 ''Not authorized to edit this message'')
                    else if mtype msg \<noteq> ''text''
                      then (st, Failure 400 ''Only text messages can be edited'')
                    else
                      (let msg' = msg\<lparr>content := Some (trim (trim new_content)),
                                      isEdited := True, editedAt := Some now\<rparr>
                       in case flt 1 of Some e \<Rightarrow> (st, Failure 500 (or_server_error e))
                          | None \<Rightarrow>
                          (case save now msg' st of
                             Inl e \<Rightarrow> (st, Failure 500 (or_server_error e))
                           | Inr st1 \<Rightarrow>
                               (case flt 2 of
                                  Some e \<Rightarrow> (st1, Failure 500 (or_server_error e))
                                | None \<Rightarrow>
                                    (let populatedMessage =
                                           findById_populated False st1 (m_id msg')
                                     in (st1, Success 200 ''Message edited successfully''
                                                (OneMessage populatedMessage))))))))
          else (st, Failure 400 ''Message content cannot be empty''))"

text \<open>
  \<^verbatim>\<open>toggleReaction\<close> of the controller; \<open>body_emoji\<close> is \<^verbatim>\<open>req.body.emoji\<close>. The
  list update is the one of the socket handler, \<open>toggle\<close>.
\<close>

definition toggleReaction ::
  "faults \<Rightarrow> nat \<Rightarrow> uid \<Rightarrow> mid \<Rightarrow> string option \<Rightarrow> store \<Rightarrow> store \<times> response" where
  "toggleReaction flt now currentUserId messageId body_emoji st =
     (case body_emoji of
        None \<Rightarrow> (st, Failure 400 ''Emoji is required'')
      | Some emoji \<Rightarrow>
          if truthy emoji then
            (case flt 0 of Some e \<Rightarrow> (st, Failure 500 (or_server_error e)) | None \<Rightarrow>
               (case Message_findById st messageId of
                  None \<Rightarrow> (st, Failure 404 ''Message not found'')
                | Some msg \<Rightarrow>
                    (let userId = currentUserId;
                         msg' = msg\<lparr>reactions := toggle now userId emoji (reactions msg)\<rparr>
                     in case flt 1 of Some e \<Rightarrow> (st, Failure 500 (or_server_error e))
                        | None \<Rightarrow>
                        (case save now msg' st of
                           Inl e \<Rightarrow> (st, Failure 500 (or_server_error e))
                         | Inr st1 \<Rightarrow>
                             (case flt 2 of
                                Some e \<Rightarrow> (st1, Failure 500 (or_server_error e))
                              | None \<Rightarrow>
                                  (let populatedMessage =
                                         findById_populated False st1 (m_id msg')
                                   in (st1, Success 200 ''Reaction toggled successfully''
                                              (OneMessage populatedMessage))))))))
          else (st, Failure 400 ''Emoji is required''))"

section \<open>Connection and presence\<close>

text \<open>\<^verbatim>\<open>initializeSocket\<close>: \<^verbatim>\<open>io.userSockets = new Map()\<close>\<close>

definition initializeSocket :: io where
  "initializeSocket = \<lparr> userSockets = [] \<rparr>"

text \<open>
  The \<^verbatim>\<open>connection\<close> callback, run after the authentication middleware has set
  \<^verbatim>\<open>socket.data.userId\<close>: it stores the socket id and attaches the handlers. It makes
  no store call and emits nothing.
\<close>

definition connection :: "socket \<Rightarrow> io \<Rightarrow> store \<Rightarrow> io \<times> store \<times> emit list" where
  "connection sock i st =
     (i\<lparr>userSockets := Map_set (userSockets i) (data_userId sock) (sock_id sock)\<rparr>, st, [])"

text \<open>\<^verbatim>\<open>user:online\<close>; the \<^verbatim>\<open>catch\<close> block only writes to the console.\<close>

definition user_online :: "faults \<Rightarrow> socket \<Rightarrow> store \<Rightarrow> store \<times> emit list" where
  "user_online flt sock st =
     (let userId = data_userId sock
      in case flt 0 of Some e \<Rightarrow> (st, []) | None \<Rightarrow>
           (User_findByIdAndUpdate userId (\<lambda>u. u\<lparr>isOnline := True\<rparr>) st,
            [(BroadcastExcept (sock_id sock), UserStatus userId True)]))"

text \<open>\<^verbatim>\<open>disconnect\<close>; the \<^verbatim>\<open>catch\<close> block only writes to the console.\<close>

definition disconnect :: "faults \<Rightarrow> nat \<Rightarrow> socket \<Rightarrow> io \<Rightarrow> store \<Rightarrow> io \<times> store \<times> emit list" where
  "disconnect flt now sock i st =
     (let userId = data_userId sock
      in if truthy userId
         then (case flt 0 of Some e \<Rightarrow> (i, st, []) | None \<Rightarrow>
                 (i\<lparr>userSockets := snd (Map_delete (userSockets i) userId)\<rparr>,
                  User_findByIdAndUpdate userId
                    (\<lambda>u. u\<lparr>isOnline := False, lastSeen := Some now\<rparr>) st,
                  [(BroadcastExcept (sock_id sock), UserStatus userId False)]))
         else (i, st, []))"

section \<open>Typing Signaler: socket/handlers/typing.handler.ts\<close>

definition typing_start :: "socket \<Rightarrow> io \<Rightarrow> uid \<Rightarrow> emit list" where
  "typing_start sock i receiverId = push i receiverId (TypingStart (data_userId sock))"

definition typing_stop :: "socket \<Rightarrow> io \<Rightarrow> uid \<Rightarrow> emit list" where
  "typing_stop sock i receiverId = push i receiverId (TypingStop (data_userId sock))"

section \<open>The server as a transition system\<close>

text \<open>
  One request is one inbound event of the connection layer or one call of an HTTP
  route, together with the clock value and the store faults it meets. Handlers run to
  completion one after the other. The socket events and the routes of the message
  controller are the handlers above. The two upload routes of the message controller
  make no store call. The routes of the auth, user and contact controllers make no
  call on the \<^verbatim>\<open>Message\<close> model and none on \<^verbatim>\<open>io.userSockets\<close>; what such a
  route does to the \<^verbatim>\<open>Contact\<close> and \<^verbatim>\<open>User\<close> collections is left open: the request
  \<open>OtherRoute\<close> carries the two collections as the route leaves them.
\<close>

datatype request =
    Connection socket
  | UserOnline faults socket
  | Disconnect faults nat socket
  | Send faults nat socket send_data
  | Edit faults nat socket mid string
  | Reaction faults nat socket mid string
  | Read faults nat socket uid
  | TypingStarts socket uid
  | TypingStops socket uid
  | History faults nat uid uid
  | UnreadCount faults uid
  | Delete faults uid mid
  | EditRoute faults nat uid mid "string option"
  | ReactionRoute faults nat uid mid "string option"
  | Upload
  | OtherRoute "(uid \<times> uid) list" "uid \<rightharpoonup> user"

fun serve :: "request \<Rightarrow> io \<times> store \<Rightarrow> io \<times> store" where
  "serve (Connection sock) (i, st) = (fst (connection sock i st), fst (snd (connection sock i st)))"
| "serve (UserOnline flt sock) (i, st) = (i, fst (user_online flt sock st))"
| "serve (Disconnect flt now sock) (i, st) =
     (fst (disconnect flt now sock i st), fst (snd (disconnect flt now sock i st)))"
| "serve (Send flt now sock d) (i, st) = (i, fst (message_send flt now sock i d st))"
| "serve (Edit flt now sock m c) (i, st) = (i, fst (message_edit flt now sock i m c st))"
| "serve (Reaction flt now sock m e) (i, st) = (i, fst (message_reaction flt now sock i m e st))"
| "serve (Read flt now sock u) (i, st) = (i, fst (message_read flt now sock i u st))"
| "serve (TypingStarts sock u) (i, st) = (i, st)"
| "serve (TypingStops sock u) (i, st) = (i, st)"
| "serve (History flt now cur u) (i, st) = (i, fst (getChatHistory flt now cur u st))"
| "serve (UnreadCount flt cur) (i, st) = (i, fst (getUnreadCount flt cur st))"
| "serve (Delete flt cur m) (i, st) = (i, fst (deleteMessage flt cur m st))"
| "serve (EditRoute flt now cur m c) (i, st) = (i, fst (editMessage flt now cur m c st))"
| "serve (ReactionRoute flt now cur m e) (i, st) = (i, fst (toggleReaction flt now cur m e st))"
| "serve Upload (i, st) = (i, st)"
| "serve (OtherRoute contacts users) (i, st) = (i, st\<lparr>Contact := contacts, User := users\<rparr>)"

definition run :: "request list \<Rightarrow> io \<times> store \<Rightarrow> io \<times> store" where
  "run rs s = foldl (\<lambda>s r. serve r s) s rs"

text \<open>The handles registered for a user, and a message's reactions as a set of pairs.\<close>

definition handles_of :: "io \<Rightarrow> uid \<Rightarrow> sid list" where
  "handles_of i u = map snd (filter (\<lambda>(u', h). u' = u) (userSockets i))"

definition reaction_pairs :: "message \<Rightarrow> (uid \<times> string) set" where
  "reaction_pairs m = set (map (\<lambda>r. (r_user r, r_emoji r)) (reactions m))"

text \<open>
  The (sender, receiver) pair whose unread messages a request asks the store to mark as
  read: \<^verbatim>\<open>message:read\<close> and \<^verbatim>\<open>getChatHistory\<close> are the two callers of
  \<^verbatim>\<open>Message.updateMany\<close>.
\<close>

fun marks_read :: "request \<Rightarrow> (uid \<times> uid) option" where
  "marks_read (Read flt now sock u) = Some (u, data_userId sock)"
| "marks_read (History flt now cur u) = Some (u, cur)"
| "marks_read _ = None"

text \<open>
  The message a request asks the store to delete: \<^verbatim>\<open>deleteMessage\<close> is the one caller
  of \<^verbatim>\<open>deleteOne\<close>.
\<close>

fun deletes :: "request \<Rightarrow> mid option" where
  "deletes (Delete flt cur m) = Some m"
| "deletes _ = None"

section \<open>A two-user scenario\<close>

text \<open>
  Two users who are contacts of each other, both with a user document, no message yet;
  one socket for B, two sockets for A (a first connection and a reconnection) and one
  socket for a user C who is nobody's contact.
\<close>

definition store0 :: store where
  "store0 = \<lparr> Contact = [(''A'', ''B''), (''B'', ''A'')],
              Message = [],
              User = [''A'' \<mapsto> \<lparr> name = ''Ann'', avatar = None, isOnline = False,
                                   lastSeen = None \<rparr>,
                      ''B'' \<mapsto> \<lparr> name = ''Bob'', avatar = None, isOnline = False,
                                   lastSeen = None \<rparr>] \<rparr>"

definition sockA :: socket where
  "sockA = \<lparr> sock_id = ''s1'', data_userId = ''A'' \<rparr>"

definition sockA' :: socket where
  "sockA' = \<lparr> sock_id = ''s3'', data_userId = ''A'' \<rparr>"

definition sockB :: socket where
  "sockB = \<lparr> sock_id = ''s2'', data_userId = ''B'' \<rparr>"

definition sockC :: socket where
  "sockC = \<lparr> sock_id = ''s4'', data_userId = ''C'' \<rparr>"

definition hi :: send_data where
  "hi = \<lparr> d_receiverId = ''B'', d_content = Some ''hi'', d_type = None, d_image = None,
          d_audio = None, d_replyTo = None \<rparr>"

text \<open>A text message and an image message from A to B, and a store holding both.\<close>

definition msg1 :: message where
  "msg1 = \<lparr> m_id = 1, sender = ''A'', receiver = ''B'', content = Some ''hi'', image = None,
            audio = None, mtype = ''text'', isRead = False, replyTo = None, isEdited = False,
            editedAt = None, reactions = [], createdAt = 1, updatedAt = 1 \<rparr>"

definition msg2 :: message where
  "msg2 = \<lparr> m_id = 2, sender = ''A'', receiver = ''B'', content = None,
            image = Some ''https://img/1.png'', audio = None, mtype = ''image'', isRead = False,
            replyTo = None, isEdited = False, editedAt = None, reactions = [],
            createdAt = 2, updatedAt = 2 \<rparr>"

definition store1 :: store where
  "store1 = store0\<lparr>Message := [msg1, msg2]\<rparr>"

text \<open>
  The first message as the populate chain resolves it in these stores, with
  \<^verbatim>\<open>isOnline\<close> selected (socket handlers) or not (message controller).
\<close>

definition resolved1 :: "bool \<Rightarrow> resolved_message" where
  "resolved1 with_isOnline =
     \<lparr> p_id = 1,
       p_sender = Some \<lparr> uc_id = ''A'', uc_name = ''Ann'', uc_avatar = None,
                         uc_isOnline = (if with_isOnline then Some False else None) \<rparr>,
       p_receiver = Some \<lparr> uc_id = ''B'', uc_name = ''Bob'', uc_avatar = None,
                           uc_isOnline = (if with_isOnline then Some False else None) \<rparr>,
       p_content = Some ''hi'', p_image = None, p_audio = None, p_type = ''text'',
       p_isRead = False, p_replyTo = None, p_isEdited = False, p_editedAt = None,
       p_reactions = [], p_createdAt = 1, p_updatedAt = 1 \<rparr>"

text \<open>A send that replies to message 7, which is in neither store.\<close>

definition reply_to_7 :: send_data where
  "reply_to_7 = hi\<lparr>d_replyTo := Some 7\<rparr>"

text \<open>A store in which the first store call of a handler is rejected.\<close>

definition first_call_fails :: faults where
  "first_call_fails = (\<lambda>k. if k = 0 then Some ''connection lost'' else None)"

section \<open>Properties of the session registry\<close>

lemma Map_get_set: "Map_get (Map_set es k v) k' = (if k' = k then Some v else Map_get es k')"
  by (induction es k v rule: Map_set.induct) auto

lemma Map_get_filter:
  "Map_get (filter (\<lambda>(k', v'). k' \<noteq> k) es) k' = (if k' = k then None else Map_get es k')"
  by (induction es) auto

lemma Map_get_delete:
  "Map_get (snd (Map_delete es k)) k' = (if k' = k then None else Map_get es k')"
  by (simp add: Map_delete_def Map_get_filter)

lemma Map_has_get: "Map_has es k \<longleftrightarrow> Map_get es k \<noteq> None"
  by (induction es) (auto simp: Map_has_def)

lemma keys_Map_set:
  "map fst (Map_set es k v) = (if k \<in> set (map fst es) then map fst es else map fst es @ [k])"
  by (induction es k v rule: Map_set.induct) auto

lemma distinct_Map_set: "distinct (map fst es) \<Longrightarrow> distinct (map fst (Map_set es k v))"
  by (simp add: keys_Map_set)

lemma distinct_Map_delete:
  "distinct (map fst es) \<Longrightarrow> distinct (map fst (snd (Map_delete es k)))"
  by (simp add: Map_delete_def distinct_map_filter)

lemma no_key_no_entry: "k \<notin> fst ` set es \<Longrightarrow> filter (\<lambda>(k', v'). k' = k) es = []"
  by (force simp: filter_empty_conv)

lemma distinct_keys_one:
  "distinct (map fst es) \<Longrightarrow> length (filter (\<lambda>(k', v'). k' = k) es) \<le> 1"
proof (induction es)
  case Nil
  then show ?case by simp
next
  case (Cons e es)
  obtain a b where e: "e = (a, b)" by (cases e)
  show ?case
  proof (cases "a = k")
    case True
    with Cons.prems e have "k \<notin> fst ` set es" by auto
    then have "filter (\<lambda>(k', v'). k' = k) es = []" by (rule no_key_no_entry)
    with True e show ?thesis by simp
  next
    case False
    with Cons e show ?thesis by simp
  qed
qed

lemma filter_Map_set:
  "distinct (map fst es) \<Longrightarrow> filter (\<lambda>(k', v'). k' = k) (Map_set es k v) = [(k, v)]"
proof (induction es k v rule: Map_set.induct)
  case (1 k v)
  then show ?case by simp
next
  case (2 k' v' es k v)
  show ?case
  proof (cases "k' = k")
    case True
    with 2 have "k \<notin> fst ` set es" by auto
    then have "filter (\<lambda>(k', v'). k' = k) es = []" by (rule no_key_no_entry)
    with True show ?thesis by simp
  next
    case False
    with 2 show ?thesis by simp
  qed
qed

text \<open>Every request keeps the keys of the registry distinct.\<close>

lemma serve_distinct:
  "distinct (map fst (userSockets (fst s))) \<Longrightarrow> distinct (map fst (userSockets (fst (serve r s))))"
  by (cases s; cases r)
     (auto simp: connection_def disconnect_def distinct_Map_set distinct_Map_delete Let_def
           split: option.splits)

lemma run_distinct:
  "distinct (map fst (userSockets (fst s))) \<Longrightarrow> distinct (map fst (userSockets (fst (run rs s))))"
proof (induction rs arbitrary: s)
  case Nil
  then show ?case by (simp add: run_def)
next
  case (Cons r rs)
  have "run (r # rs) s = run rs (serve r s)" by (simp add: run_def)
  with Cons.IH [OF serve_distinct [OF Cons.prems]] show ?case by simp
qed

text \<open>
  C10. In every state the server reaches from \<open>initializeSocket\<close>, whatever the
  requests and the store, a user has at most one registered handle. Registering a
  socket for a user leaves exactly that socket's id as the user's handle (an earlier
  handle is replaced, not kept beside it) and does not touch the other users' handles.
\<close>

theorem registry_at_most_one_handle:
  "length (handles_of (fst (run rs (initializeSocket, st))) U) \<le> 1
   \<and> handles_of (fst (connection sock (fst (run rs (initializeSocket, st))) st'))
        (data_userId sock) = [sock_id sock]
   \<and> Map_get (userSockets (fst (connection sock (fst (run rs (initializeSocket, st))) st'))) V
       = (if V = data_userId sock then Some (sock_id sock)
          else Map_get (userSockets (fst (run rs (initializeSocket, st)))) V)"
proof -
  have d: "distinct (map fst (userSockets (fst (run rs (initializeSocket, st)))))"
    by (rule run_distinct) (simp add: initializeSocket_def)
  have 1: "length (handles_of (fst (run rs (initializeSocket, st))) U) \<le> 1"
    using distinct_keys_one [OF d, of U] by (simp add: handles_of_def)
  have 2: "handles_of (fst (connection sock (fst (run rs (initializeSocket, st))) st'))
             (data_userId sock) = [sock_id sock]"
    using filter_Map_set [OF d] by (simp add: handles_of_def connection_def)
  have 3: "Map_get (userSockets (fst (connection sock (fst (run rs (initializeSocket, st))) st'))) V
       = (if V = data_userId sock then Some (sock_id sock)
          else Map_get (userSockets (fst (run rs (initializeSocket, st)))) V)"
    by (simp add: connection_def Map_get_set)
  from 1 2 3 show ?thesis by blast
qed

theorem registry_at_most_one_handle_witness:
  "length (handles_of (fst (run [Connection sockA, Connection sockB] (initializeSocket, store0)))
      ''A'') \<le> 1
   \<and> handles_of (fst (connection sockA'
        (fst (run [Connection sockA, Connection sockB] (initializeSocket, store0))) store0))
        (data_userId sockA') = [sock_id sockA']
   \<and> Map_get (userSockets (fst (connection sockA'
        (fst (run [Connection sockA, Connection sockB] (initializeSocket, store0))) store0))) ''B''
       = (if ''B'' = data_userId sockA' then Some (sock_id sockA')
          else Map_get (userSockets
                 (fst (run [Connection sockA, Connection sockB] (initializeSocket, store0)))) ''B'')"
  by (rule registry_at_most_one_handle)

section \<open>Properties of the store calls\<close>

lemma Contact_findOne_None: "Contact_findOne st u c = None \<longleftrightarrow> (u, c) \<notin> set (Contact st)"
  by (auto simp: Contact_findOne_def find_None_iff)

lemma Contact_findOne_Some: "(u, c) \<in> set (Contact st) \<Longrightarrow> Contact_findOne st u c = Some (u, c)"
  by (cases "Contact_findOne st u c") (auto simp: Contact_findOne_def find_None_iff dest: find_Some_iff [THEN iffD1])

lemma map_if_none: "filter P ms = [] \<Longrightarrow> map (\<lambda>m. if P m then g m else m) ms = ms"
  by (induction ms) (auto split: if_splits)

lemma updateMany_none:
  "filter (\<lambda>m. sender m = s \<and> receiver m = r \<and> \<not> isRead m) (Message st) = [] \<Longrightarrow> Message_updateMany now s r st = st"
  by (simp add: Message_updateMany_def map_if_none)

lemma find_append_if:
  "find P (xs @ ys) = (case find P xs of None \<Rightarrow> find P ys | Some x \<Rightarrow> Some x)"
  by (induction xs) auto

lemma le_foldr_max: "n \<in> set ns \<Longrightarrow> n \<le> foldr max ns (0::nat)"
  by (induction ns) (auto simp: max_def)

lemma new_id_fresh: "m \<in> set ms \<Longrightarrow> m_id m \<noteq> new_id ms"
proof
  assume m: "m \<in> set ms" and e: "m_id m = new_id ms"
  from m have "m_id m \<in> set (map m_id ms)" by simp
  then have "m_id m \<le> foldr max (map m_id ms) 0" by (rule le_foldr_max)
  with e show False by (simp add: new_id_def)
qed

lemma find_new_id: "find (\<lambda>m. m_id m = new_id ms) ms = None"
  by (auto simp: find_None_iff dest: new_id_fresh)

lemma findById_appended:
  "m_id doc = new_id (Message st)
   \<Longrightarrow> Message_findById (st\<lparr>Message := Message st @ [doc]\<rparr>) (m_id doc) = Some doc"
  by (simp add: Message_findById_def find_append_if find_new_id)

lemma find_map_same_id:
  "(\<And>m. m_id (f m) = m_id m) \<Longrightarrow>
   find (\<lambda>m. m_id m = M) (map f ms) = map_option f (find (\<lambda>m. m_id m = M) ms)"
  by (induction ms) auto

lemma findById_id: "Message_findById st M = Some msg \<Longrightarrow> m_id msg = M"
  by (auto simp: Message_findById_def find_Some_iff)

lemma findById_updateMany:
  "Message_findById (Message_updateMany now s r st) M
     = map_option (\<lambda>m. if sender m = s \<and> receiver m = r \<and> \<not> isRead m
                         then m\<lparr>isRead := True, updatedAt := now\<rparr> else m)
         (Message_findById st M)"
  unfolding Message_findById_def Message_updateMany_def
  by (simp, intro find_map_same_id) simp

lemma emoji_errors_Nil: "emoji_errors m = [] \<longleftrightarrow> [] \<notin> set (map r_emoji (reactions m))"
proof -
  have "set (reactions m) = snd ` set (enumerate 0 (reactions m))"
    by (metis list.set_map map_snd_enumerate)
  then have "[] \<in> r_emoji ` set (reactions m)
          \<longleftrightarrow> (\<exists>p \<in> set (enumerate 0 (reactions m)). r_emoji (snd p) = [])"
    by force
  then show ?thesis
    by (simp add: emoji_errors_def filter_empty_conv case_prod_unfold)
qed

lemma validate_None:
  "validate m = None \<longleftrightarrow>
     mtype m \<in> set [''text'', ''image'', ''audio''] \<and> [] \<notin> set (map r_emoji (reactions m))"
proof -
  have "validate m = None \<longleftrightarrow> type_errors m = [] \<and> emoji_errors m = []"
    by (cases "type_errors m @ emoji_errors m") (auto simp: validate_def)
  moreover have "type_errors m = [] \<longleftrightarrow> mtype m \<in> set [''text'', ''image'', ''audio'']"
    by (auto simp: type_errors_def)
  ultimately show ?thesis by (simp add: emoji_errors_Nil)
qed

section \<open>Session registry and presence\<close>

text \<open>
  C2, as the code has it. The \<^verbatim>\<open>disconnect\<close> handler of a socket tagged with user U
  (a non-empty identifier), once its presence write went through, deletes U's entry
  whatever handle is stored there: the handle of the disconnecting socket is not
  compared with the stored one. The other users' entries stay. \<^verbatim>\<open>Map.delete\<close> answers
  whether U had an entry; the handler drops that answer.
\<close>

theorem disconnect_removes_whatever_handle:
  assumes "truthy (data_userId sock)" and "flt 0 = None"
  shows "Map_get (userSockets (fst (disconnect flt now sock i st))) V
           = (if V = data_userId sock then None else Map_get (userSockets i) V)
         \<and> fst (Map_delete (userSockets i) (data_userId sock))
           = (Map_get (userSockets i) (data_userId sock) \<noteq> None)"
proof -
  have "userSockets (fst (disconnect flt now sock i st))
          = snd (Map_delete (userSockets i) (data_userId sock))"
    using assms by (simp add: disconnect_def Let_def)
  then have 1: "Map_get (userSockets (fst (disconnect flt now sock i st))) V
           = (if V = data_userId sock then None else Map_get (userSockets i) V)"
    by (simp only: Map_get_delete)
  have 2: "fst (Map_delete (userSockets i) (data_userId sock))
           = (Map_get (userSockets i) (data_userId sock) \<noteq> None)"
    by (simp add: Map_delete_def Map_has_get)
  from 1 2 show ?thesis by blast
qed

theorem disconnect_removes_whatever_handle_witness:
  "truthy (data_userId sockA) \<and> no_faults 0 = None
   \<and> Map_get (userSockets (fst (run [Connection sockA, Connection sockA'] (initializeSocket, store0)))) ''A'' = Some ''s3''
   \<and> Map_get (userSockets (fst (disconnect no_faults 5 sockA
         (fst (run [Connection sockA, Connection sockA'] (initializeSocket, store0))) store0))) ''A'' = None
   \<and> fst (Map_delete (userSockets (fst (run [Connection sockA, Connection sockA'] (initializeSocket, store0)))) (data_userId sockA)) = True"
proof -
  have h1: "truthy (data_userId sockA)" by (simp add: truthy_def sockA_def)
  have h2: "no_faults 0 = None" by (simp add: no_faults_def)
  have r: "userSockets (fst (run [Connection sockA, Connection sockA'] (initializeSocket, store0))) = [(''A'', ''s3'')]"
    by (simp add: run_def connection_def initializeSocket_def sockA_def sockA'_def)
  have u: "data_userId sockA = ''A''" by (simp add: sockA_def)
  have g: "Map_get [(''A'', ''s3'')] ''A'' = Some ''s3''" by simp
  show ?thesis
    using h1 h2 disconnect_removes_whatever_handle [where flt = no_faults and sock = sockA and now = 5
        and i = "fst (run [Connection sockA, Connection sockA'] (initializeSocket, store0))"
        and st = store0 and V = "''A''", OF h1 h2]
    unfolding r u g by simp
qed

text \<open>
  C2, as stated, fails: A connects on socket s1 and reconnects on socket s3, so that
  s3 is A's handle; then the stale socket s1 disconnects. The claim expects s3 to
  stay; the registry has no handle for A any more.
\<close>

theorem stale_disconnect_counterexample:
  "sock_id sockA \<noteq> ''s3''
   \<and> Map_get (userSockets (fst (run [Connection sockA, Connection sockA'] (initializeSocket, store0)))) ''A'' = Some ''s3''
   \<and> Map_get (userSockets (fst (run [Connection sockA, Connection sockA', Disconnect no_faults 5 sockA] (initializeSocket, store0)))) ''A'' = None"
  by (simp add: run_def connection_def disconnect_def Let_def initializeSocket_def sockA_def
        sockA'_def no_faults_def truthy_def Map_delete_def)

text \<open>
  C8, as the code has it. The \<^verbatim>\<open>connection\<close> callback leaves the store as it is and
  emits nothing. The \<^verbatim>\<open>user:online\<close> event that the client sends afterwards, when its
  store call goes through, sets \<^verbatim>\<open>isOnline\<close> on the user's document (no other document
  changes) and broadcasts the status to every connected socket but the sender's own.
\<close>

theorem online_signal_marks_and_broadcasts:
  assumes "flt 0 = None"
  shows "fst (snd (connection sock i st)) = st \<and> snd (snd (connection sock i st)) = []
    \<and> snd (user_online flt sock st) = [(BroadcastExcept (sock_id sock), UserStatus (data_userId sock) True)]
    \<and> User (fst (user_online flt sock st)) V
        = (if V = data_userId sock then map_option (\<lambda>u. u\<lparr>isOnline := True\<rparr>) (User st V) else User st V)"
  using assms
  by (auto simp: connection_def user_online_def Let_def User_findByIdAndUpdate_def split: option.splits)

theorem online_signal_marks_and_broadcasts_witness:
  "no_faults 0 = None
   \<and> fst (snd (connection sockA initializeSocket store0)) = store0
   \<and> snd (snd (connection sockA initializeSocket store0)) = []
   \<and> snd (user_online no_faults sockA store0) = [(BroadcastExcept ''s1'', UserStatus ''A'' True)]
   \<and> map_option isOnline (User (fst (user_online no_faults sockA store0)) ''A'') = Some True"
proof -
  have h: "no_faults 0 = None" by (simp add: no_faults_def)
  show ?thesis
    using h online_signal_marks_and_broadcasts [where flt = no_faults and sock = sockA
        and i = initializeSocket and st = store0 and V = "''A''", OF h]
    by (simp add: sockA_def store0_def)
qed

text \<open>
  C8, as stated, fails: A has no handle, then registers socket s1 as the first one.
  The registration emits no event and A's document still says offline.
\<close>

theorem register_alone_counterexample:
  "handles_of initializeSocket ''A'' = []
   \<and> handles_of (fst (connection sockA initializeSocket store0)) ''A'' = [''s1'']
   \<and> snd (snd (connection sockA initializeSocket store0)) = []
   \<and> map_option isOnline (User (fst (snd (connection sockA initializeSocket store0))) ''A'') = Some False"
  by (simp add: connection_def initializeSocket_def sockA_def store0_def handles_of_def)

section \<open>Message Router\<close>

text \<open>
  C3, as the code has it. When no unread message from A to the socket's user exists
  and the store call goes through, \<^verbatim>\<open>message:read\<close> leaves the store as it is, and it
  still emits the read receipt naming the reader to A's handle whenever A has one;
  nothing is emitted otherwise.
\<close>

theorem markRead_nothing_unread:
  assumes "filter (\<lambda>m. sender m = A \<and> receiver m = data_userId sock \<and> \<not> isRead m) (Message st) = []"
      and "flt 0 = None"
  shows "fst (message_read flt now sock i A st) = st
     \<and> snd (message_read flt now sock i A st)
         = (case Map_get (userSockets i) A of
              None \<Rightarrow> []
            | Some h \<Rightarrow> if truthy h then [(To h, MessageRead (data_userId sock))] else [])"
  using assms by (simp add: message_read_def read_body_def push_def updateMany_none)

theorem markRead_nothing_unread_witness:
  "filter (\<lambda>m. sender m = ''A'' \<and> receiver m = data_userId sockB \<and> \<not> isRead m) (Message store0) = []
   \<and> no_faults 0 = None
   \<and> fst (message_read no_faults 3 sockB (fst (connection sockA initializeSocket store0)) ''A'' store0) = store0
   \<and> snd (message_read no_faults 3 sockB (fst (connection sockA initializeSocket store0)) ''A'' store0)
       = [(To ''s1'', MessageRead ''B'')]"
proof -
  have h1: "filter (\<lambda>m. sender m = ''A'' \<and> receiver m = data_userId sockB \<and> \<not> isRead m) (Message store0) = []"
    by (simp add: store0_def)
  have h2: "no_faults 0 = None" by (simp add: no_faults_def)
  show ?thesis
    using h1 h2 markRead_nothing_unread [where flt = no_faults and sock = sockB and A = "''A''" and st = store0
        and now = 3 and i = "fst (connection sockA initializeSocket store0)", OF h1 h2]
    by (simp add: connection_def initializeSocket_def sockA_def sockB_def truthy_def)
qed

text \<open>
  C3, as stated, fails: the store holds no message at all, A is connected on s1, and B
  marks A's messages as read. The receipt is pushed to s1.
\<close>

theorem markRead_nothing_unread_counterexample:
  "filter (\<lambda>m. sender m = ''A'' \<and> receiver m = ''B'' \<and> \<not> isRead m) (Message store0) = []
   \<and> Map_get (userSockets (fst (connection sockA initializeSocket store0))) ''A'' = Some ''s1''
   \<and> message_read no_faults 3 sockB (fst (connection sockA initializeSocket store0)) ''A'' store0
       = (store0, [(To ''s1'', MessageRead ''B'')])"
  apply (simp add: message_read_def read_body_def no_faults_def connection_def initializeSocket_def
         sockA_def sockB_def push_def truthy_def updateMany_none)
  apply (simp add: store0_def Message_updateMany_def)
  done

text \<open>
  C4. When the \<^verbatim>\<open>Contact\<close> collection holds no document (sender, receiver),
  \<^verbatim>\<open>message:send\<close> leaves the store as it is and emits exactly one event, an error to
  the sender's own socket: the text "Can only send messages to contacts" when the
  contact lookup answered, the store's error text when the lookup itself was rejected.
\<close>

theorem send_without_contact_forbidden:
  assumes "(data_userId sock, d_receiverId d) \<notin> set (Contact st)"
  shows "fst (message_send flt now sock i d st) = st
     \<and> snd (message_send flt now sock i d st)
         = [(To (sock_id sock),
             MessageError (case flt 0 of None \<Rightarrow> ''Can only send messages to contacts''
                                        | Some e \<Rightarrow> e))]"
  using assms
  by (simp add: message_send_def send_body_def Contact_findOne_None [symmetric] split: option.splits)

theorem send_without_contact_forbidden_witness:
  "(data_userId sockC, d_receiverId hi) \<notin> set (Contact store0)
   \<and> fst (message_send no_faults 1 sockC initializeSocket hi store0) = store0
   \<and> snd (message_send no_faults 1 sockC initializeSocket hi store0)
       = [(To ''s4'', MessageError ''Can only send messages to contacts'')]"
proof -
  have h: "(data_userId sockC, d_receiverId hi) \<notin> set (Contact store0)"
    by (simp add: sockC_def hi_def store0_def)
  show ?thesis
    using h send_without_contact_forbidden [where sock = sockC and d = hi and st = store0
        and flt = no_faults and now = 1 and i = initializeSocket, OF h]
    by (simp add: no_faults_def sockC_def)
qed

text \<open>The outcome of a send that passes the contact check and the schema.\<close>

lemma send_ok:
  assumes contact: "(data_userId sock, d_receiverId d) \<in> set (Contact st)"
    and kind: "(case d_type d of None \<Rightarrow> ''text'' | Some t \<Rightarrow> t) \<in> set [''text'', ''image'', ''audio'']"
    and flt: "flt 0 = None" "flt 1 = None" "flt 2 = None"
    and doc: "doc = \<lparr> m_id = new_id (Message st), sender = data_userId sock,
                      receiver = d_receiverId d, content = map_option trim (d_content d),
                      image = d_image d, audio = d_audio d,
                      mtype = (case d_type d of None \<Rightarrow> ''text'' | Some t \<Rightarrow> t),
                      isRead = False, replyTo = d_replyTo d, isEdited = False, editedAt = None,
                      reactions = [], createdAt = now, updatedAt = now \<rparr>"
    and st1: "st1 = st\<lparr>Message := Message st @ [doc]\<rparr>"
  shows "message_send flt now sock i d st
           = (st1,
              (To (sock_id sock), MessageSent (Some (populate True st1 doc)))
              # push i (d_receiverId d) (MessageReceive (Some (populate True st1 doc))))"
proof -
  have v: "validate doc = None"
    using kind by (simp add: validate_None doc)
  have c: "Message_create now \<lparr> md_sender = data_userId sock, md_receiver = d_receiverId d,
                md_content = d_content d, md_image = d_image d, md_audio = d_audio d,
                md_type = (case d_type d of None \<Rightarrow> ''text'' | Some t \<Rightarrow> t),
                md_isRead = False, md_replyTo = d_replyTo d \<rparr> st
            = Inr (doc, st\<lparr>Message := Message st @ [doc]\<rparr>)"
    using v by (simp add: Message_create_def Let_def doc [symmetric])
  have f: "Message_findById (st\<lparr>Message := Message st @ [doc]\<rparr>) (m_id doc) = Some doc"
    by (rule findById_appended) (simp add: doc)
  show ?thesis
    using Contact_findOne_Some [OF contact] flt c f
    by (simp add: message_send_def send_body_def Let_def findById_populated_def st1)
qed

text \<open>The first message of the scenario, sent and resolved.\<close>

lemma populate_fields:
  "p_id (populate w st m) = m_id m" "p_isRead (populate w st m) = isRead m"
  "p_replyTo (populate w st m) = (case replyTo m of None \<Rightarrow> None | Some r \<Rightarrow> select_reply st r)"
  by (simp_all add: populate_def)

lemma trim_hi: "trim ''hi'' = ''hi''"
  by (simp add: trim_def white_space_def space_at_start_def)

lemma send_hi:
  "message_send no_faults 1 sockA i (hi\<lparr>d_replyTo := rt\<rparr>) store0
     = (store0\<lparr>Message := [msg1\<lparr>replyTo := rt\<rparr>]\<rparr>,
        (To ''s1'', MessageSent (Some (populate True (store0\<lparr>Message := [msg1\<lparr>replyTo := rt\<rparr>]\<rparr>)
                                        (msg1\<lparr>replyTo := rt\<rparr>))))
        # push i ''B'' (MessageReceive (Some (populate True
                                   (store0\<lparr>Message := [msg1\<lparr>replyTo := rt\<rparr>]\<rparr>)
                                   (msg1\<lparr>replyTo := rt\<rparr>)))))"
proof -
  have c: "(data_userId sockA, d_receiverId (hi\<lparr>d_replyTo := rt\<rparr>)) \<in> set (Contact store0)"
    by (simp add: sockA_def hi_def store0_def)
  have k: "(case d_type (hi\<lparr>d_replyTo := rt\<rparr>) of None \<Rightarrow> ''text'' | Some t \<Rightarrow> t)
             \<in> set [''text'', ''image'', ''audio'']"
    by (simp add: hi_def)
  have f: "no_faults 0 = None" "no_faults 1 = None" "no_faults 2 = None"
    by (simp_all add: no_faults_def)
  show ?thesis
    using send_ok [OF c k f refl refl, of 1 i]
    by (simp add: hi_def store0_def sockA_def msg1_def new_id_def trim_hi)
qed

lemma populate_msg1:
  "populate w (store0\<lparr>Message := [msg1]\<rparr>) msg1 = resolved1 w"
  "populate w (store0\<lparr>Message := [msg1\<lparr>replyTo := Some 7\<rparr>]\<rparr>) (msg1\<lparr>replyTo := Some 7\<rparr>)
     = resolved1 w"
  by (simp_all add: populate_def resolved1_def select_card_def select_reply_def store0_def
        msg1_def Message_findById_def)

text \<open>
  C5, as the code has it. The reply target is stored as given and never looked up. A
  send whose \<^verbatim>\<open>replyTo\<close> resolves to no message (and is not the identifier that the
  new message itself receives), from a sender with a contact edge to the receiver, with
  a kind of the schema and a working store, raises no error: it inserts the new message
  with that \<^verbatim>\<open>replyTo\<close> and \<^verbatim>\<open>isRead = false\<close> and pushes the resolved message to the
  sender and, if live, the receiver. In the pushed message the populate chain has turned
  the dangling reply target into null.
\<close>

theorem send_unresolved_reply_persists:
  assumes contact: "(data_userId sock, d_receiverId d) \<in> set (Contact st)"
    and kind: "(case d_type d of None \<Rightarrow> ''text'' | Some t \<Rightarrow> t) \<in> set [''text'', ''image'', ''audio'']"
    and flt: "flt 0 = None" "flt 1 = None" "flt 2 = None"
    and reply: "d_replyTo d = Some r" "Message_findById st r = None"
    and other: "r \<noteq> new_id (Message st)"
  shows "\<exists>doc pm. Message (fst (message_send flt now sock i d st)) = Message st @ [doc]
           \<and> replyTo doc = Some r \<and> \<not> isRead doc
           \<and> sender doc = data_userId sock \<and> receiver doc = d_receiverId d
           \<and> snd (message_send flt now sock i d st)
               = (To (sock_id sock), MessageSent (Some pm))
                 # push i (d_receiverId d) (MessageReceive (Some pm))
           \<and> pm = populate True (fst (message_send flt now sock i d st)) doc
           \<and> p_id pm = m_id doc \<and> p_replyTo pm = None"
proof -
  define doc where "doc = \<lparr> m_id = new_id (Message st), sender = data_userId sock,
                      receiver = d_receiverId d, content = map_option trim (d_content d),
                      image = d_image d, audio = d_audio d,
                      mtype = (case d_type d of None \<Rightarrow> ''text'' | Some t \<Rightarrow> t),
                      isRead = False, replyTo = d_replyTo d, isEdited = False, editedAt = None,
                      reactions = [], createdAt = now, updatedAt = now \<rparr>"
  define st1 where "st1 = st\<lparr>Message := Message st @ [doc]\<rparr>"
  define pm where "pm = populate True st1 doc"
  have send: "message_send flt now sock i d st
           = (st1, (To (sock_id sock), MessageSent (Some pm))
                   # push i (d_receiverId d) (MessageReceive (Some pm)))"
    unfolding pm_def by (rule send_ok [OF contact kind flt doc_def st1_def])
  have "Message_findById st1 r = None"
    using reply(2) other by (simp add: Message_findById_def st1_def find_append_if doc_def)
  then have "p_replyTo pm = None"
    using reply(1) by (simp add: pm_def populate_fields doc_def select_reply_def)
  moreover have "p_id pm = m_id doc" by (simp add: pm_def populate_fields)
  moreover have "Message st1 = Message st @ [doc]" by (simp add: st1_def)
  moreover have "replyTo doc = Some r \<and> \<not> isRead doc
           \<and> sender doc = data_userId sock \<and> receiver doc = d_receiverId d"
    using reply(1) by (simp add: doc_def)
  ultimately show ?thesis
    unfolding send using pm_def by auto
qed

theorem send_unresolved_reply_persists_witness:
  "(data_userId sockA, d_receiverId reply_to_7) \<in> set (Contact store0)
   \<and> (case d_type reply_to_7 of None \<Rightarrow> ''text'' | Some t \<Rightarrow> t) \<in> set [''text'', ''image'', ''audio'']
   \<and> no_faults 0 = None \<and> no_faults 1 = None \<and> no_faults 2 = None
   \<and> d_replyTo reply_to_7 = Some 7 \<and> Message_findById store0 7 = None
   \<and> 7 \<noteq> new_id (Message store0)
   \<and> (\<exists>doc pm. Message (fst (message_send no_faults 1 sockA initializeSocket reply_to_7 store0))
               = Message store0 @ [doc]
           \<and> replyTo doc = Some 7 \<and> \<not> isRead doc
           \<and> sender doc = data_userId sockA \<and> receiver doc = d_receiverId reply_to_7
           \<and> snd (message_send no_faults 1 sockA initializeSocket reply_to_7 store0)
               = (To (sock_id sockA), MessageSent (Some pm))
                 # push initializeSocket (d_receiverId reply_to_7) (MessageReceive (Some pm))
           \<and> pm = populate True
                   (fst (message_send no_faults 1 sockA initializeSocket reply_to_7 store0)) doc
           \<and> p_id pm = m_id doc \<and> p_replyTo pm = None)"
proof -
  have c: "(data_userId sockA, d_receiverId reply_to_7) \<in> set (Contact store0)"
    by (simp add: sockA_def reply_to_7_def hi_def store0_def)
  have k: "(case d_type reply_to_7 of None \<Rightarrow> ''text'' | Some t \<Rightarrow> t)
             \<in> set [''text'', ''image'', ''audio'']"
    by (simp add: reply_to_7_def hi_def)
  have f: "no_faults 0 = None" "no_faults 1 = None" "no_faults 2 = None"
    by (simp_all add: no_faults_def)
  have r: "d_replyTo reply_to_7 = Some 7" "Message_findById store0 7 = None"
    by (simp_all add: reply_to_7_def Message_findById_def store0_def)
  have n: "7 \<noteq> new_id (Message store0)" by (simp add: new_id_def store0_def)
  from c k f r n send_unresolved_reply_persists [OF c k f r n, of 1 initializeSocket]
  show ?thesis by blast
qed

text \<open>
  C5, as stated, fails: A, a contact of B, sends a reply to message 7 while the store
  holds no message. No error is raised: the store then holds the new message with
  \<^verbatim>\<open>replyTo\<close> 7, and A's socket gets the send confirmation, whose reply target is
  null.
\<close>

theorem send_unresolved_reply_counterexample:
  "d_replyTo reply_to_7 = Some 7 \<and> Message_findById store0 7 = None
   \<and> map replyTo (Message (fst (message_send no_faults 1 sockA initializeSocket reply_to_7 store0)))
       = [Some 7]
   \<and> snd (message_send no_faults 1 sockA initializeSocket reply_to_7 store0)
       = [(To ''s1'', MessageSent (Some (resolved1 True)))]"
proof -
  have r: "reply_to_7 = hi\<lparr>d_replyTo := Some 7\<rparr>" by (simp add: reply_to_7_def)
  show ?thesis
    unfolding r send_hi populate_msg1
    by (simp add: hi_def Message_findById_def store0_def msg1_def push_def initializeSocket_def)
qed

text \<open>
  C7. With the lookup of the message answered by the store, \<^verbatim>\<open>message:edit\<close> fails
  \<^item> with "Message not found" when no message has the identifier;
  \<^item> with "Not authorized" when the message exists and its sender is not the socket's
    user;
  \<^item> with "Can only edit text messages" when the sender edits a message whose type is
    not text.
  The checks run in this order. In each case the error goes to the acting socket only
  and the store is left as it was; in particular a message whose type is not text is
  never changed by an edit, whoever asks.
\<close>

theorem edit_rejections:
  assumes "flt 0 = None"
  shows "(Message_findById st M = None \<longrightarrow>
            message_edit flt now sock i M c st
              = (st, [(To (sock_id sock), MessageError ''Message not found'')]))
       \<and> (Message_findById st M = Some msg \<and> sender msg \<noteq> data_userId sock \<longrightarrow>
            message_edit flt now sock i M c st
              = (st, [(To (sock_id sock), MessageError ''Not authorized'')]))
       \<and> (Message_findById st M = Some msg \<and> sender msg = data_userId sock
            \<and> mtype msg \<noteq> ''text'' \<longrightarrow>
            message_edit flt now sock i M c st
              = (st, [(To (sock_id sock), MessageError ''Can only edit text messages'')]))
       \<and> (Message_findById st M = Some msg \<and> mtype msg \<noteq> ''text'' \<longrightarrow>
            fst (message_edit flt now sock i M c st) = st
            \<and> Message_findById (fst (message_edit flt now sock i M c st)) M = Some msg)"
  using assms by (simp add: message_edit_def edit_body_def Let_def)

theorem edit_rejections_witness:
  "no_faults 0 = None
   \<and> Message_findById store1 3 = None
   \<and> message_edit no_faults 9 sockA initializeSocket 3 ''hello'' store1
       = (store1, [(To ''s1'', MessageError ''Message not found'')])
   \<and> Message_findById store1 1 = Some msg1 \<and> sender msg1 \<noteq> data_userId sockB
   \<and> message_edit no_faults 9 sockB initializeSocket 1 ''hello'' store1
       = (store1, [(To ''s2'', MessageError ''Not authorized'')])
   \<and> Message_findById store1 2 = Some msg2 \<and> sender msg2 = data_userId sockA
   \<and> mtype msg2 \<noteq> ''text''
   \<and> message_edit no_faults 9 sockA initializeSocket 2 ''hello'' store1
       = (store1, [(To ''s1'', MessageError ''Can only edit text messages'')])
   \<and> Message_findById (fst (message_edit no_faults 9 sockA initializeSocket 2 ''hello'' store1)) 2
       = Some msg2"
proof -
  have h: "no_faults 0 = None" by (simp add: no_faults_def)
  have f3: "Message_findById store1 3 = None"
    by (simp add: Message_findById_def store1_def msg1_def msg2_def)
  have f1: "Message_findById store1 1 = Some msg1 \<and> sender msg1 \<noteq> data_userId sockB"
    by (simp add: Message_findById_def store1_def msg1_def sockB_def)
  have f2: "Message_findById store1 2 = Some msg2 \<and> sender msg2 = data_userId sockA
              \<and> mtype msg2 \<noteq> ''text''"
    by (simp add: Message_findById_def store1_def msg1_def msg2_def sockA_def)
  have ids: "sock_id sockA = ''s1''" "sock_id sockB = ''s2''"
    by (simp_all add: sockA_def sockB_def)
  note a = edit_rejections [where flt = no_faults and st = store1 and now = 9
             and i = initializeSocket and c = "''hello''", OF h]
  from h f3 f1 f2 a [where M = 3 and sock = sockA] a [where M = 1 and sock = sockB and msg = msg1]
    a [where M = 2 and sock = sockA and msg = msg2]
  show ?thesis unfolding ids by blast
qed

text \<open>
  C9 at a failing input. The store rejects the first call. \<^verbatim>\<open>message:read\<close> then
  emits nothing at all, to nobody: its \<^verbatim>\<open>catch\<close> block only logs. The neighbouring
  handler \<^verbatim>\<open>message:send\<close>, under the same rejection, reports the error to the
  initiating socket.
\<close>

theorem message_read_store_failure_is_silent:
  "first_call_fails 0 = Some ''connection lost''
   \<and> message_read first_call_fails 3 sockB (fst (connection sockA initializeSocket store0)) ''A'' store0
       = (store0, [])
   \<and> message_send first_call_fails 3 sockA (fst (connection sockA initializeSocket store0)) hi store0
       = (store0, [(To ''s1'', MessageError ''connection lost'')])"
  by (simp add: first_call_fails_def message_read_def read_body_def message_send_def send_body_def
        Let_def sockA_def)

text \<open>
  The three other handlers report every error their body throws, and a body that
  throws has pushed nothing.
\<close>

lemma thrown_errors_reported:
  "send_body flt now sock i d st = (st', Inl e) \<Longrightarrow>
     message_send flt now sock i d st = (st', [(To (sock_id sock), MessageError e)])"
  "edit_body flt now sock i M c st = (st', Inl e) \<Longrightarrow>
     message_edit flt now sock i M c st = (st', [(To (sock_id sock), MessageError e)])"
  "reaction_body flt now sock i M em st = (st', Inl e) \<Longrightarrow>
     message_reaction flt now sock i M em st = (st', [(To (sock_id sock), MessageError e)])"
  "read_body flt now sock i u st = (st', Inl e) \<Longrightarrow>
     message_read flt now sock i u st = (st', [])"
  by (simp_all add: message_send_def message_edit_def message_reaction_def message_read_def)

subsection \<open>Reactions\<close>

lemma toggle_pairs:
  "set (map (\<lambda>r. (r_user r, r_emoji r)) (toggle now u e rs))
     = (if (u, e) \<in> set (map (\<lambda>r. (r_user r, r_emoji r)) rs)
        then set (map (\<lambda>r. (r_user r, r_emoji r)) rs) - {(u, e)}
        else insert (u, e) (set (map (\<lambda>r. (r_user r, r_emoji r)) rs)))"
proof (cases "find (\<lambda>r. r_user r = u \<and> r_emoji r = e) rs")
  case None
  then have "(u, e) \<notin> set (map (\<lambda>r. (r_user r, r_emoji r)) rs)"
    by (auto simp: find_None_iff)
  with None show ?thesis by (simp add: toggle_def)
next
  case (Some x)
  then have "(u, e) \<in> set (map (\<lambda>r. (r_user r, r_emoji r)) rs)"
    by (force simp: find_Some_iff in_set_conv_nth)
  with Some show ?thesis by (auto simp: toggle_def)
qed

lemma toggle_emojis:
  "e \<noteq> [] \<Longrightarrow> [] \<notin> set (map r_emoji rs) \<Longrightarrow> [] \<notin> set (map r_emoji (toggle now u e rs))"
  by (auto simp: toggle_def split: option.splits)

lemma reaction_ok:
  assumes found: "Message_findById st M = Some msg"
    and valid: "validate msg = None"
    and emoji: "emoji \<noteq> []"
    and flt: "flt 0 = None" "flt 1 = None"
    and doc: "doc = msg\<lparr>reactions := toggle now (data_userId sock) emoji (reactions msg),
                         updatedAt := now\<rparr>"
  shows "Message_findById (fst (message_reaction flt now sock i M emoji st)) M = Some doc"
    and "validate doc = None"
proof -
  have idm: "m_id msg = M" using found by (rule findById_id)
  show v: "validate doc = None"
    using valid toggle_emojis [OF emoji, of "reactions msg" now "data_userId sock"]
    by (simp add: validate_None doc)
  have s: "save now (msg\<lparr>reactions := toggle now (data_userId sock) emoji (reactions msg)\<rparr>) st
             = Inr (st\<lparr>Message := map (\<lambda>m. if m_id m = M then doc else m) (Message st)\<rparr>)"
    using v by (simp add: save_def Let_def doc idm)
  have st1: "fst (message_reaction flt now sock i M emoji st)
               = st\<lparr>Message := map (\<lambda>m. if m_id m = M then doc else m) (Message st)\<rparr>"
    using found flt s
    by (cases "flt 2") (simp_all add: message_reaction_def reaction_body_def Let_def)
  have "m_id doc = M" by (simp add: doc idm)
  then have "find (\<lambda>m. m_id m = M) (map (\<lambda>m. if m_id m = M then doc else m) (Message st))
          = map_option (\<lambda>m. if m_id m = M then doc else m) (find (\<lambda>m. m_id m = M) (Message st))"
    by (intro find_map_same_id) simp
  with found idm show "Message_findById (fst (message_reaction flt now sock i M emoji st)) M = Some doc"
    by (simp add: st1 Message_findById_def)
qed

lemma reaction_empty_emoji:
  assumes found: "Message_findById st M = Some msg"
    and valid: "validate msg = None"
  shows "fst (message_reaction flt now sock i M [] st) = st"
proof -
  from valid have "[] \<notin> set (map r_emoji (reactions msg))"
    by (simp add: validate_None)
  then have "find (\<lambda>r. r_user r = data_userId sock \<and> r_emoji r = []) (reactions msg) = None"
    by (force simp: find_None_iff image_iff)
  then have "validate (msg\<lparr>reactions := toggle now (data_userId sock) [] (reactions msg),
               updatedAt := now\<rparr>) \<noteq> None"
    by (simp add: toggle_def validate_None)
  then have "\<exists>e. save now (msg\<lparr>reactions := toggle now (data_userId sock) [] (reactions msg)\<rparr>) st = Inl e"
    by (auto simp: save_def Let_def)
  with found show ?thesis
    by (auto simp: message_reaction_def reaction_body_def Let_def split: option.splits)
qed

text \<open>
  C6. Let the message exist and satisfy its schema, as every stored message does, and
  let the store calls of both toggles go through. After two successive toggles by the
  same user with the same emoji the message carries the same set of (user, emoji)
  pairs as before. One toggle with an emoji (a non-empty string) removes the pair
  (user, emoji) from that set when it is there and adds it when it is not.
\<close>

theorem toggleReaction_twice_restores:
  assumes found: "Message_findById st M = Some msg"
    and valid: "validate msg = None"
    and flt: "flt 0 = None" "flt 1 = None"
    and flt': "flt' 0 = None" "flt' 1 = None"
  shows "map_option reaction_pairs
           (Message_findById
              (fst (message_reaction flt' now' sock i' M emoji
                      (fst (message_reaction flt now sock i M emoji st)))) M)
         = Some (reaction_pairs msg)
       \<and> (emoji \<noteq> [] \<longrightarrow>
            map_option reaction_pairs
              (Message_findById (fst (message_reaction flt now sock i M emoji st)) M)
            = Some (if (data_userId sock, emoji) \<in> reaction_pairs msg
                    then reaction_pairs msg - {(data_userId sock, emoji)}
                    else insert (data_userId sock, emoji) (reaction_pairs msg)))"
proof (cases "emoji = []")
  case True
  with reaction_empty_emoji [OF found valid] found show ?thesis by simp
next
  case emoji: False
  define doc1 where "doc1 = msg\<lparr>reactions := toggle now (data_userId sock) emoji (reactions msg),
                         updatedAt := now\<rparr>"
  define st1 where "st1 = fst (message_reaction flt now sock i M emoji st)"
  define doc2 where "doc2 = doc1\<lparr>reactions := toggle now' (data_userId sock) emoji (reactions doc1),
                         updatedAt := now'\<rparr>"
  have f1: "Message_findById st1 M = Some doc1" and v1: "validate doc1 = None"
    unfolding st1_def using reaction_ok [OF found valid emoji flt doc1_def] by simp_all
  have f2: "Message_findById (fst (message_reaction flt' now' sock i' M emoji st1)) M = Some doc2"
    using reaction_ok [OF f1 v1 emoji flt' doc2_def] by simp
  have p1: "reaction_pairs doc1
         = (if (data_userId sock, emoji) \<in> reaction_pairs msg
                 then reaction_pairs msg - {(data_userId sock, emoji)}
                 else insert (data_userId sock, emoji) (reaction_pairs msg))"
    unfolding reaction_pairs_def doc1_def
    using toggle_pairs [of now "data_userId sock" emoji "reactions msg"] by simp
  have p2: "reaction_pairs doc2
         = (if (data_userId sock, emoji) \<in> reaction_pairs doc1
                 then reaction_pairs doc1 - {(data_userId sock, emoji)}
                 else insert (data_userId sock, emoji) (reaction_pairs doc1))"
    unfolding reaction_pairs_def doc2_def
    using toggle_pairs [of now' "data_userId sock" emoji "reactions doc1"] by simp
  have "reaction_pairs doc2 = reaction_pairs msg"
    unfolding p2 p1 by auto
  with f1 f2 p1 show ?thesis by (simp add: st1_def)
qed

theorem toggleReaction_twice_restores_witness:
  "Message_findById store1 1 = Some msg1 \<and> validate msg1 = None
   \<and> no_faults 0 = None \<and> no_faults 1 = None \<and> ''+1'' \<noteq> []
   \<and> map_option reaction_pairs
        (Message_findById
           (fst (message_reaction no_faults 6 sockB initializeSocket 1 ''+1''
                   (fst (message_reaction no_faults 5 sockB initializeSocket 1 ''+1'' store1)))) 1)
      = Some {}
   \<and> map_option reaction_pairs
        (Message_findById (fst (message_reaction no_faults 5 sockB initializeSocket 1 ''+1'' store1)) 1)
      = Some {(''B'', ''+1'')}"
proof -
  have h1: "Message_findById store1 1 = Some msg1"
    by (simp add: store1_def Message_findById_def msg1_def)
  have h2: "validate msg1 = None" by (simp add: validate_None msg1_def)
  have h3: "no_faults 0 = None" "no_faults 1 = None" by (simp_all add: no_faults_def)
  have p: "reaction_pairs msg1 = {}" by (simp add: reaction_pairs_def msg1_def)
  have u: "data_userId sockB = ''B''" by (simp add: sockB_def)
  show ?thesis
    using h1 h2 h3
      toggleReaction_twice_restores [where flt = no_faults and flt' = no_faults and emoji = "''+1''"
        and sock = sockB and i = initializeSocket and i' = initializeSocket and now = 5
        and now' = 6, OF h1 h2 h3 h3]
    by (simp add: p u)
qed

subsection \<open>Read state\<close>

lemma history_ok:
  assumes "(cur, u) \<in> set (Contact st)" and "flt 0 = None" "flt 1 = None" "flt 2 = None"
  shows "getChatHistory flt now cur u st
           = (Message_updateMany now u cur st,
              Success 200 ''Chat history fetched successfully''
                (Messages (map (populate False st)
                             (sort_key createdAt (filter (between cur u) (Message st))))))"
  using Contact_findOne_Some [OF assms(1)] assms(2-4)
  by (simp add: getChatHistory_def Let_def)

lemma history_refused:
  "(cur, u) \<notin> set (Contact st) \<Longrightarrow> fst (getChatHistory flt now cur u st) = st"
  by (simp add: getChatHistory_def Contact_findOne_None [symmetric] split: option.splits)

lemma read_ok:
  "flt 0 = None \<Longrightarrow>
   fst (message_read flt now sock i s st) = Message_updateMany now s (data_userId sock) st"
  by (simp add: message_read_def read_body_def Let_def)

text \<open>What each handler does to the read flag of a stored message.\<close>

lemma send_Message:
  "\<exists>ds. Message (fst (message_send flt now sock i d st)) = Message st @ ds"
  by (auto simp: message_send_def send_body_def Let_def Message_create_def
           split: option.splits sum.splits prod.splits)

lemma save_isRead:
  assumes "save now doc st = Inr st'" and "Message_findById st M = Some m"
    and "m_id doc = M \<longrightarrow> isRead doc = isRead m"
  shows "map_option isRead (Message_findById st' M) = Some (isRead m)"
proof -
  define doc' where "doc' = doc\<lparr>updatedAt := now\<rparr>"
  from assms(1) have st': "st' = st\<lparr>Message := map (\<lambda>m. if m_id m = m_id doc' then doc' else m) (Message st)\<rparr>"
    by (auto simp: save_def Let_def doc'_def split: option.splits)
  have "find (\<lambda>m. m_id m = M) (map (\<lambda>m. if m_id m = m_id doc' then doc' else m) (Message st))
       = map_option (\<lambda>m. if m_id m = m_id doc' then doc' else m) (find (\<lambda>m. m_id m = M) (Message st))"
    by (intro find_map_same_id) simp
  with assms(2) have "Message_findById st' M = Some (if m_id m = m_id doc' then doc' else m)"
    by (simp add: st' Message_findById_def)
  moreover have "m_id m = M" using assms(2) by (rule findById_id)
  ultimately show ?thesis using assms(3) by (auto simp: doc'_def)
qed

text \<open>
  A handler that loads a message, changes fields other than the read flag and saves
  it: the two edits and the two reaction toggles.
\<close>

lemma load_and_save_isRead:
  assumes found: "Message_findById st M = Some m"
    and after: "st' = st \<or> (\<exists>msg doc. Message_findById st M' = Some msg \<and> save now doc st = Inr st'
                              \<and> m_id doc = m_id msg \<and> isRead doc = isRead msg)"
  shows "map_option isRead (Message_findById st' M) = Some (isRead m)"
  using after
proof
  assume "st' = st"
  with found show ?thesis by simp
next
  assume "\<exists>msg doc. Message_findById st M' = Some msg \<and> save now doc st = Inr st'
            \<and> m_id doc = m_id msg \<and> isRead doc = isRead msg"
  then obtain msg doc where f: "Message_findById st M' = Some msg"
    and s: "save now doc st = Inr st'" and d: "m_id doc = m_id msg" "isRead doc = isRead msg"
    by blast
  have "m_id doc = M \<longrightarrow> isRead doc = isRead m"
    using f found findById_id [OF f] d by auto
  from save_isRead [OF s found this] show ?thesis .
qed

lemma edit_isRead:
  assumes "Message_findById st M = Some m"
  shows "map_option isRead (Message_findById (fst (message_edit flt now sock i M' c st)) M)
           = Some (isRead m)"
proof (rule load_and_save_isRead [OF assms])
  show "fst (message_edit flt now sock i M' c st) = st
      \<or> (\<exists>msg doc. Message_findById st M' = Some msg
            \<and> save now doc st = Inr (fst (message_edit flt now sock i M' c st))
            \<and> m_id doc = m_id msg \<and> isRead doc = isRead msg)"
    by (auto simp: message_edit_def edit_body_def Let_def
             split: option.splits if_splits sum.splits)
qed

lemma reaction_isRead:
  assumes "Message_findById st M = Some m"
  shows "map_option isRead (Message_findById (fst (message_reaction flt now sock i M' e st)) M)
           = Some (isRead m)"
proof (rule load_and_save_isRead [OF assms])
  show "fst (message_reaction flt now sock i M' e st) = st
      \<or> (\<exists>msg doc. Message_findById st M' = Some msg
            \<and> save now doc st = Inr (fst (message_reaction flt now sock i M' e st))
            \<and> m_id doc = m_id msg \<and> isRead doc = isRead msg)"
    by (auto simp: message_reaction_def reaction_body_def Let_def
             split: option.splits if_splits sum.splits)
qed

lemma editMessage_isRead:
  assumes "Message_findById st M = Some m"
  shows "map_option isRead (Message_findById (fst (editMessage flt now cur M' c st)) M)
           = Some (isRead m)"
proof (rule load_and_save_isRead [OF assms])
  show "fst (editMessage flt now cur M' c st) = st
      \<or> (\<exists>msg doc. Message_findById st M' = Some msg
            \<and> save now doc st = Inr (fst (editMessage flt now cur M' c st))
            \<and> m_id doc = m_id msg \<and> isRead doc = isRead msg)"
    by (auto simp: editMessage_def Let_def split: option.splits if_splits sum.splits)
qed

lemma toggleReaction_isRead:
  assumes "Message_findById st M = Some m"
  shows "map_option isRead (Message_findById (fst (toggleReaction flt now cur M' e st)) M)
           = Some (isRead m)"
proof (rule load_and_save_isRead [OF assms])
  show "fst (toggleReaction flt now cur M' e st) = st
      \<or> (\<exists>msg doc. Message_findById st M' = Some msg
            \<and> save now doc st = Inr (fst (toggleReaction flt now cur M' e st))
            \<and> m_id doc = m_id msg \<and> isRead doc = isRead msg)"
    by (auto simp: toggleReaction_def Let_def split: option.splits if_splits sum.splits)
qed

lemma find_filter_id:
  "find (\<lambda>m. m_id m = M) (filter (\<lambda>m. m_id m \<noteq> k) ms)
     = (if M = k then None else find (\<lambda>m. m_id m = M) ms)"
  by (induction ms) auto

lemma deleteMessage_isRead:
  assumes "Message_findById st M = Some m"
  shows "map_option isRead (Message_findById (fst (deleteMessage flt cur M' st)) M)
           = Some (isRead m)
         \<or> M' = M \<and> Message_findById (fst (deleteMessage flt cur M' st)) M = None"
proof -
  have "fst (deleteMessage flt cur M' st) = st
        \<or> (\<exists>msg. Message_findById st M' = Some msg
              \<and> fst (deleteMessage flt cur M' st) = deleteOne msg st)"
    by (auto simp: deleteMessage_def split: option.splits)
  then show ?thesis
  proof
    assume "fst (deleteMessage flt cur M' st) = st"
    with assms show ?thesis by simp
  next
    assume "\<exists>msg. Message_findById st M' = Some msg
              \<and> fst (deleteMessage flt cur M' st) = deleteOne msg st"
    then obtain msg where f: "Message_findById st M' = Some msg"
      and d: "fst (deleteMessage flt cur M' st) = deleteOne msg st"
      by blast
    have "Message_findById (deleteOne msg st) M
            = (if M = M' then None else Message_findById st M)"
      using findById_id [OF f] by (simp add: Message_findById_def deleteOne_def find_filter_id)
    with assms d show ?thesis by auto
  qed
qed

lemma send_isRead:
  assumes "Message_findById st M = Some m"
  shows "map_option isRead (Message_findById (fst (message_send flt now sock i d st)) M)
           = Some (isRead m)"
proof -
  obtain ds where "Message (fst (message_send flt now sock i d st)) = Message st @ ds"
    using send_Message by blast
  with assms show ?thesis by (simp add: Message_findById_def find_append_if)
qed

lemma updateMany_isRead:
  assumes "Message_findById st M = Some m" and "(s, r) \<noteq> (sender m, receiver m)"
  shows "map_option isRead (Message_findById (Message_updateMany now s r st) M) = Some (isRead m)"
  using assms by (auto simp: findById_updateMany)

lemma read_isRead:
  assumes "Message_findById st M = Some m" and "(s, data_userId sock) \<noteq> (sender m, receiver m)"
  shows "map_option isRead (Message_findById (fst (message_read flt now sock i s st)) M) = Some (isRead m)"
proof (cases "flt 0")
  case None
  with updateMany_isRead [OF assms] show ?thesis by (simp add: read_ok)
next
  case (Some e)
  with assms(1) show ?thesis by (simp add: message_read_def read_body_def Let_def)
qed

lemma history_isRead:
  assumes "Message_findById st M = Some m" and "(u, cur) \<noteq> (sender m, receiver m)"
  shows "map_option isRead (Message_findById (fst (getChatHistory flt now cur u st)) M) = Some (isRead m)"
proof -
  have "fst (getChatHistory flt now cur u st) = st
        \<or> fst (getChatHistory flt now cur u st) = Message_updateMany now u cur st"
    by (auto simp: getChatHistory_def Let_def split: option.splits)
  with assms(1) updateMany_isRead [OF assms] show ?thesis by auto
qed

lemma presence_Message:
  "Message (fst (user_online flt sock st)) = Message st"
  "Message (fst (snd (disconnect flt now sock i st))) = Message st"
  "Message (fst (snd (connection sock i st))) = Message st"
  "fst (getUnreadCount flt cur st) = st"
  by (auto simp: user_online_def disconnect_def connection_def Let_def User_findByIdAndUpdate_def
           getUnreadCount_def split: option.splits)

lemma serve_isRead:
  assumes "Message_findById st M = Some m" and "marks_read r \<noteq> Some (sender m, receiver m)"
  shows "map_option isRead (Message_findById (snd (serve r (i, st))) M) = Some (isRead m)
         \<or> deletes r = Some M \<and> Message_findById (snd (serve r (i, st))) M = None"
proof (cases r)
  case (Connection sock)
  with assms(1) show ?thesis by (simp add: Message_findById_def presence_Message)
next
  case (UserOnline flt sock)
  with assms(1) show ?thesis by (simp add: Message_findById_def presence_Message)
next
  case (Disconnect flt now sock)
  with assms(1) show ?thesis by (simp add: Message_findById_def presence_Message)
next
  case (Send flt now sock d)
  with send_isRead [OF assms(1)] show ?thesis by simp
next
  case (Edit flt now sock M' c)
  with edit_isRead [OF assms(1)] show ?thesis by simp
next
  case (Reaction flt now sock M' e)
  with reaction_isRead [OF assms(1)] show ?thesis by simp
next
  case (Read flt now sock u)
  with assms(2) have "(u, data_userId sock) \<noteq> (sender m, receiver m)" by simp
  from read_isRead [OF assms(1) this] Read show ?thesis by simp
next
  case (TypingStarts sock u)
  with assms(1) show ?thesis by simp
next
  case (TypingStops sock u)
  with assms(1) show ?thesis by simp
next
  case (History flt now cur u)
  with assms(2) have "(u, cur) \<noteq> (sender m, receiver m)" by simp
  from history_isRead [OF assms(1) this] History show ?thesis by simp
next
  case (UnreadCount flt cur)
  with assms(1) show ?thesis by (simp add: presence_Message)
next
  case (Delete flt cur M')
  with deleteMessage_isRead [OF assms(1), of flt cur M'] show ?thesis by auto
next
  case (EditRoute flt now cur M' c)
  with editMessage_isRead [OF assms(1)] show ?thesis by simp
next
  case (ReactionRoute flt now cur M' e)
  with toggleReaction_isRead [OF assms(1)] show ?thesis by simp
next
  case Upload
  with assms(1) show ?thesis by simp
next
  case (OtherRoute contacts users)
  with assms(1) show ?thesis by (simp add: Message_findById_def)
qed

lemma send_hi_offline:
  "message_send no_faults 1 sockA initializeSocket hi store0
     = (store0\<lparr>Message := [msg1]\<rparr>, [(To ''s1'', MessageSent (Some (resolved1 True)))])"
proof -
  have "hi\<lparr>d_replyTo := None\<rparr> = hi" "msg1\<lparr>replyTo := None\<rparr> = msg1"
    by (simp_all add: hi_def msg1_def)
  with send_hi [of initializeSocket None] show ?thesis
    by (simp add: populate_msg1 push_def initializeSocket_def)
qed

text \<open>
  C1, as the code has it. A sends to B, who has no handle; A has a contact edge to B,
  the kind is one of the schema and the store works. Then the message is stored with
  \<^verbatim>\<open>isRead = false\<close> and only A's socket is notified, with the resolved message. When
  B, who has a contact edge to A, retrieves the chat history with A, the response lists
  the resolved message as it was read from the store, unread; the retrieval then runs
  the same \<^verbatim>\<open>updateMany\<close> as \<^verbatim>\<open>message:read\<close> from B about A, after which the
  stored message is read.
  Last conjunct: take any request, that is any socket event or HTTP route, other than
  a \<^verbatim>\<open>message:read\<close> by the receiver about the sender and a history retrieval by the
  receiver about the sender. It leaves the read flag of a stored message as it was,
  unless it is the delete route for that very message, after which the message is
  gone.
\<close>

theorem history_retrieval_marks_read:
  assumes contactAB: "(data_userId sock, d_receiverId d) \<in> set (Contact st)"
    and kind: "(case d_type d of None \<Rightarrow> ''text'' | Some t \<Rightarrow> t) \<in> set [''text'', ''image'', ''audio'']"
    and flt: "flt 0 = None" "flt 1 = None" "flt 2 = None"
    and offline: "Map_get (userSockets i) (d_receiverId d) = None"
    and contactBA: "(d_receiverId d, data_userId sock) \<in> set (Contact st)"
    and flt': "flt' 0 = None" "flt' 1 = None" "flt' 2 = None"
    and st1: "st1 = fst (message_send flt now sock i d st)"
  shows "(\<exists>doc ms.
            Message st1 = Message st @ [doc]
          \<and> sender doc = data_userId sock \<and> receiver doc = d_receiverId d \<and> \<not> isRead doc
          \<and> Message_findById st1 (m_id doc) = Some doc
          \<and> snd (message_send flt now sock i d st)
              = [(To (sock_id sock), MessageSent (Some (populate True st1 doc)))]
          \<and> snd (getChatHistory flt' now' (d_receiverId d) (data_userId sock) st1)
              = Success 200 ''Chat history fetched successfully'' (Messages ms)
          \<and> populate False st1 doc \<in> set ms \<and> \<not> p_isRead (populate False st1 doc)
          \<and> fst (getChatHistory flt' now' (d_receiverId d) (data_userId sock) st1)
              = Message_updateMany now' (data_userId sock) (d_receiverId d) st1
          \<and> map_option isRead
               (Message_findById
                  (fst (getChatHistory flt' now' (d_receiverId d) (data_userId sock) st1))
                  (m_id doc)) = Some True
          \<and> (flt'' 0 = None \<and> data_userId sock' = d_receiverId d \<longrightarrow>
               map_option isRead
                 (Message_findById
                    (fst (message_read flt'' now'' sock' i' (data_userId sock) st1))
                    (m_id doc)) = Some True))
       \<and> (Message_findById s M = Some m \<and> marks_read r \<noteq> Some (sender m, receiver m) \<longrightarrow>
            map_option isRead (Message_findById (snd (serve r (j, s))) M) = Some (isRead m)
            \<or> deletes r = Some M \<and> Message_findById (snd (serve r (j, s))) M = None)"
proof -
  define doc where "doc = \<lparr> m_id = new_id (Message st), sender = data_userId sock,
                      receiver = d_receiverId d, content = map_option trim (d_content d),
                      image = d_image d, audio = d_audio d,
                      mtype = (case d_type d of None \<Rightarrow> ''text'' | Some t \<Rightarrow> t),
                      isRead = False, replyTo = d_replyTo d, isEdited = False, editedAt = None,
                      reactions = [], createdAt = now, updatedAt = now \<rparr>"
  define ms where "ms = map (populate False st1) (sort_key createdAt
                          (filter (between (d_receiverId d) (data_userId sock)) (Message st1)))"
  have send: "message_send flt now sock i d st
           = (st\<lparr>Message := Message st @ [doc]\<rparr>,
              [(To (sock_id sock),
                MessageSent (Some (populate True (st\<lparr>Message := Message st @ [doc]\<rparr>) doc)))])"
    using send_ok [OF contactAB kind flt doc_def refl, of i] offline by (simp add: push_def)
  have st1': "st1 = st\<lparr>Message := Message st @ [doc]\<rparr>" by (simp add: st1 send)
  have a: "Message st1 = Message st @ [doc]" by (simp add: st1')
  have b: "sender doc = data_userId sock \<and> receiver doc = d_receiverId d \<and> \<not> isRead doc"
    by (simp add: doc_def)
  have c: "Message_findById st1 (m_id doc) = Some doc"
    unfolding st1' by (rule findById_appended) (simp add: doc_def)
  have contact1: "(d_receiverId d, data_userId sock) \<in> set (Contact st1)"
    using contactBA by (simp add: st1')
  have hist: "getChatHistory flt' now' (d_receiverId d) (data_userId sock) st1
           = (Message_updateMany now' (data_userId sock) (d_receiverId d) st1,
              Success 200 ''Chat history fetched successfully'' (Messages ms))"
    unfolding ms_def by (rule history_ok [OF contact1 flt'])
  have "doc \<in> set (sort_key createdAt
                      (filter (between (d_receiverId d) (data_userId sock)) (Message st1)))"
    by (simp add: a between_def doc_def)
  then have e: "populate False st1 doc \<in> set ms"
    unfolding ms_def by (simp only: set_map) (rule imageI)
  have e': "\<not> p_isRead (populate False st1 doc)"
    using b by (simp add: populate_fields)
  have f: "map_option isRead
             (Message_findById (Message_updateMany now' (data_userId sock) (d_receiverId d) st1)
                (m_id doc)) = Some True" for now'
    using b by (simp add: findById_updateMany c)
  have g: "flt'' 0 = None \<and> data_userId sock' = d_receiverId d \<longrightarrow>
               map_option isRead
                 (Message_findById
                    (fst (message_read flt'' now'' sock' i' (data_userId sock) st1))
                    (m_id doc)) = Some True"
    using f by (auto simp: read_ok)
  have s: "snd (message_send flt now sock i d st)
              = [(To (sock_id sock), MessageSent (Some (populate True st1 doc)))]"
    by (simp add: send st1')
  have part1: "\<exists>doc ms.
            Message st1 = Message st @ [doc]
          \<and> sender doc = data_userId sock \<and> receiver doc = d_receiverId d \<and> \<not> isRead doc
          \<and> Message_findById st1 (m_id doc) = Some doc
          \<and> snd (message_send flt now sock i d st)
              = [(To (sock_id sock), MessageSent (Some (populate True st1 doc)))]
          \<and> snd (getChatHistory flt' now' (d_receiverId d) (data_userId sock) st1)
              = Success 200 ''Chat history fetched successfully'' (Messages ms)
          \<and> populate False st1 doc \<in> set ms \<and> \<not> p_isRead (populate False st1 doc)
          \<and> fst (getChatHistory flt' now' (d_receiverId d) (data_userId sock) st1)
              = Message_updateMany now' (data_userId sock) (d_receiverId d) st1
          \<and> map_option isRead
               (Message_findById
                  (fst (getChatHistory flt' now' (d_receiverId d) (data_userId sock) st1))
                  (m_id doc)) = Some True
          \<and> (flt'' 0 = None \<and> data_userId sock' = d_receiverId d \<longrightarrow>
               map_option isRead
                 (Message_findById
                    (fst (message_read flt'' now'' sock' i' (data_userId sock) st1))
                    (m_id doc)) = Some True)"
    apply (rule exI [of _ doc], rule exI [of _ ms])
    using a b c e e' g s f [of now'] by (simp add: hist)
  have part2: "Message_findById s M = Some m \<and> marks_read r \<noteq> Some (sender m, receiver m) \<longrightarrow>
            map_option isRead (Message_findById (snd (serve r (j, s))) M) = Some (isRead m)
            \<or> deletes r = Some M \<and> Message_findById (snd (serve r (j, s))) M = None"
    using serve_isRead by blast
  from part1 part2 show ?thesis by (rule conjI)
qed

theorem history_retrieval_marks_read_witness:
  "(data_userId sockA, d_receiverId hi) \<in> set (Contact store0)
   \<and> (case d_type hi of None \<Rightarrow> ''text'' | Some t \<Rightarrow> t) \<in> set [''text'', ''image'', ''audio'']
   \<and> no_faults 0 = None \<and> no_faults 1 = None \<and> no_faults 2 = None
   \<and> Map_get (userSockets initializeSocket) (d_receiverId hi) = None
   \<and> (d_receiverId hi, data_userId sockA) \<in> set (Contact store0)
   \<and> data_userId sockB = d_receiverId hi
   \<and> Message (fst (message_send no_faults 1 sockA initializeSocket hi store0)) = [msg1]
   \<and> \<not> isRead msg1
   \<and> snd (message_send no_faults 1 sockA initializeSocket hi store0)
       = [(To ''s1'', MessageSent (Some (resolved1 True)))]
   \<and> snd (getChatHistory no_faults 2 ''B'' ''A''
             (fst (message_send no_faults 1 sockA initializeSocket hi store0)))
       = Success 200 ''Chat history fetched successfully'' (Messages [resolved1 False])
   \<and> \<not> p_isRead (resolved1 False)
   \<and> map_option isRead
        (Message_findById
           (fst (getChatHistory no_faults 2 ''B'' ''A''
                   (fst (message_send no_faults 1 sockA initializeSocket hi store0)))) 1)
       = Some True
   \<and> map_option isRead
        (Message_findById
           (fst (message_read no_faults 2 sockB initializeSocket ''A''
                   (fst (message_send no_faults 1 sockA initializeSocket hi store0)))) 1)
       = Some True
   \<and> Message_findById store1 1 = Some msg1
   \<and> marks_read (Edit no_faults 7 sockA 1 ''hello'') \<noteq> Some (sender msg1, receiver msg1)
   \<and> map_option isRead
        (Message_findById
           (snd (serve (Edit no_faults 7 sockA 1 ''hello'') (initializeSocket, store1))) 1)
       = Some (isRead msg1)
   \<and> marks_read (Delete no_faults ''A'' 1) \<noteq> Some (sender msg1, receiver msg1)
   \<and> Message_findById (snd (serve (Delete no_faults ''A'' 1) (initializeSocket, store1))) 1
       = None"
proof -
  define st1 where "st1 = fst (message_send no_faults 1 sockA initializeSocket hi store0)"
  have c: "(data_userId sockA, d_receiverId hi) \<in> set (Contact store0)"
    by (simp add: sockA_def hi_def store0_def)
  have k: "(case d_type hi of None \<Rightarrow> ''text'' | Some t \<Rightarrow> t) \<in> set [''text'', ''image'', ''audio'']"
    by (simp add: hi_def)
  have f: "no_faults 0 = None" "no_faults 1 = None" "no_faults 2 = None"
    by (simp_all add: no_faults_def)
  have off: "Map_get (userSockets initializeSocket) (d_receiverId hi) = None"
    by (simp add: initializeSocket_def)
  have c': "(d_receiverId hi, data_userId sockA) \<in> set (Contact store0)"
    by (simp add: sockA_def hi_def store0_def)
  have b: "data_userId sockB = d_receiverId hi" by (simp add: sockB_def hi_def)
  have u: "data_userId sockA = ''A''" "d_receiverId hi = ''B''" "sock_id sockA = ''s1''"
    by (simp_all add: sockA_def hi_def)
  have f1: "Message_findById store1 1 = Some msg1"
    by (simp add: Message_findById_def store1_def msg1_def)
  have mr: "marks_read (Edit no_faults 7 sockA 1 ''hello'') \<noteq> Some (sender msg1, receiver msg1)"
    by simp
  have md: "marks_read (Delete no_faults ''A'' 1) \<noteq> Some (sender msg1, receiver msg1)"
    by simp
  have nr: "\<not> isRead msg1" "\<not> p_isRead (resolved1 False)"
    by (simp_all add: msg1_def resolved1_def)
  note T = history_retrieval_marks_read [where flt = no_faults and flt' = no_faults
      and flt'' = no_faults and sock = sockA and sock' = sockB and d = hi and st = store0
      and i = initializeSocket and i' = initializeSocket and now = 1 and now' = 2 and now'' = 2
      and s = store1 and M = 1 and m = msg1 and j = initializeSocket, OF c k f off c' f st1_def]
  from T [where r = "Edit no_faults 7 sockA 1 ''hello''"] f1 mr
  have frame: "map_option isRead
        (Message_findById
           (snd (serve (Edit no_faults 7 sockA 1 ''hello'') (initializeSocket, store1))) 1)
       = Some (isRead msg1)"
    by auto
  have del: "Message_findById (snd (serve (Delete no_faults ''A'' 1) (initializeSocket, store1))) 1
       = None"
    by (simp add: deleteMessage_def no_faults_def Message_findById_def deleteOne_def store1_def
          msg1_def msg2_def)
  from T [where r = "Edit no_faults 7 sockA 1 ''hello''"] obtain doc ms where
        m: "Message st1 = Message store0 @ [doc]"
    and h: "snd (getChatHistory no_faults 2 (d_receiverId hi) (data_userId sockA) st1)
              = Success 200 ''Chat history fetched successfully'' (Messages ms)"
    and r1: "map_option isRead
               (Message_findById
                  (fst (getChatHistory no_faults 2 (d_receiverId hi) (data_userId sockA) st1))
                  (m_id doc)) = Some True"
    and r2: "no_faults 0 = None \<and> data_userId sockB = d_receiverId hi \<longrightarrow>
               map_option isRead
                 (Message_findById
                    (fst (message_read no_faults 2 sockB initializeSocket (data_userId sockA) st1))
                    (m_id doc)) = Some True"
    by blast
  have s: "st1 = store0\<lparr>Message := [msg1]\<rparr>"
    unfolding st1_def send_hi_offline by simp
  have e: "snd (message_send no_faults 1 sockA initializeSocket hi store0)
             = [(To ''s1'', MessageSent (Some (resolved1 True)))]"
    unfolding send_hi_offline by simp
  have doc: "doc = msg1" using m by (simp add: s store0_def)
  have c1: "(''B'', ''A'') \<in> set (Contact (store0\<lparr>Message := [msg1]\<rparr>))"
    by (simp add: store0_def)
  have l: "sort_key createdAt
             (filter (between ''B'' ''A'') (Message (store0\<lparr>Message := [msg1]\<rparr>))) = [msg1]"
    by (simp add: between_def msg1_def)
  have ms: "ms = [resolved1 False]"
    using h unfolding u s history_ok [OF c1 f] l by (simp add: populate_msg1)
  have id1: "m_id msg1 = 1" by (simp add: msg1_def)
  from c k f off c' b nr f1 mr md frame del m e h r1 r2
  show ?thesis
    unfolding doc ms u id1 st1_def [symmetric] by (simp add: s store0_def)
qed

text \<open>
  C1, as stated, fails: A is connected, B is not; A sends "hi"; B retrieves the
  history and never sends \<^verbatim>\<open>message:read\<close>. The stored message is read afterwards.
\<close>

theorem history_changes_read_state_counterexample:
  "Map_get (userSockets (fst (connection sockA initializeSocket store0))) ''B'' = None
   \<and> map isRead (Message (fst (message_send no_faults 1 sockA
         (fst (connection sockA initializeSocket store0)) hi store0))) = [False]
   \<and> map isRead (Message (fst (getChatHistory no_faults 2 ''B'' ''A''
         (fst (message_send no_faults 1 sockA
            (fst (connection sockA initializeSocket store0)) hi store0))))) = [True]"
proof -
  have f: "no_faults 0 = None" "no_faults 1 = None" "no_faults 2 = None"
    by (simp_all add: no_faults_def)
  have "hi\<lparr>d_replyTo := None\<rparr> = hi" "msg1\<lparr>replyTo := None\<rparr> = msg1"
    by (simp_all add: hi_def msg1_def)
  with send_hi [of "fst (connection sockA initializeSocket store0)" None]
  have s: "fst (message_send no_faults 1 sockA (fst (connection sockA initializeSocket store0)) hi store0)
             = store0\<lparr>Message := [msg1]\<rparr>"
    by simp
  have c': "(''B'', ''A'') \<in> set (Contact (store0\<lparr>Message := [msg1]\<rparr>))"
    by (simp add: store0_def)
  show ?thesis
    unfolding s history_ok [OF c' f]
    by (simp add: connection_def initializeSocket_def sockA_def Message_updateMany_def
          msg1_def)
qed

end
